theory Spec2Isabelle
  imports Complex_Main
begin

section \<open>Data model\<close>

text \<open>
  The component keeps its numbers as JavaScript numbers. The model of the component
  takes them as mathematical reals, so its arithmetic is exact. The coordinate mapper
  and the alignment solver, whose results are compared with numbers computed another
  way, are transcribed a second time with a rounding after every operation (the
  definitions named \<open>_rnd\<close> below); with the rounding \<open>double\<close> they compute what the
  source computes in binary64, and with the identity they are the exact model.
  Infinities and NaN are outside both: where the source divides by zero the model has
  the value 0 that HOL gives to \<open>x / 0\<close>, and the two agree wherever no divisor is
  zero, which is the case for layers of positive height and aspect ratio.
  Field names follow the source; \<open>id\<close>, \<open>x\<close> and \<open>y\<close> carry a suffix so that they
  do not hide the identity function and the usual variable names.
\<close>

record LayerRefs =
  bodyTopY :: real
  faceBottomY :: real
  bodyBottomY :: real
  eyeLeftX :: real
  eyeLeftY :: real
  eyeRightX :: real
  eyeRightY :: real

record ImageLayer =
  id_l :: string
  src :: string
  x_l :: real
  y_l :: real
  width :: real
  height :: real
  aspectRatio :: real
  visible :: bool
  refs :: "LayerRefs option"

record Point =
  x_p :: real
  y_p :: real

subsection \<open>Coordinate mapper\<close>

definition imageToCanvas :: "ImageLayer \<Rightarrow> real \<Rightarrow> real \<Rightarrow> Point" where
  "imageToCanvas layer u v =
     (let R = aspectRatio layer;
          divRatio = width layer / height layer
      in if divRatio > R then
           (let imgW = height layer * R;
                left = (width layer - imgW) / 2
            in \<lparr>x_p = x_l layer + left + u * imgW, y_p = y_l layer + v * height layer\<rparr>)
         else
           (let imgH = width layer / R;
                top = (height layer - imgH) / 2
            in \<lparr>x_p = x_l layer + u * width layer, y_p = y_l layer + top + v * imgH\<rparr>))"


subsection \<open>Component state\<close>

text \<open>
  The state of the \<open>ImageAligner\<close> component: its \<open>useState\<close> cells and its refs.
  \<open>history\<close> is \<open>historyRef.current\<close> (the newest snapshot last) and
  \<open>pendingUndoState\<close> is \<open>pendingUndoStateRef.current\<close>. \<open>layersRef.current\<close> mirrors
  \<open>layers\<close> after every render and is read as \<open>layers\<close>; a functional \<open>setLayers\<close>
  update is applied where it is called. Colours, opacities, the border switch, the
  hover position and the id of the row being dragged in the panel never reach the
  layers or the history and are left out.
\<close>

datatype Guide = H1 | H2 | H3 | V1 | V2

datatype Direction = Up | Down

record ResizeStart =
  mouseX :: real
  mouseY :: real
  start_width :: real
  start_height :: real
  start_x :: real
  start_y :: real

record Rect =
  rect_left :: real
  rect_top :: real
  rect_width :: real
  rect_height :: real

record File =
  file_type :: string
  file_name :: string
  file_url :: string

record AlignerState =
  layers :: "ImageLayer list"
  selectedId :: "string option"
  guideH1 :: real
  guideH2 :: real
  guideH3 :: real
  guideV1 :: real
  guideV2 :: real
  alignModalOpen :: bool
  alignModalLayerIndex :: nat
  alignModalStep :: nat
  alignWarning :: "string option"
  snapToLayerCenters :: bool
  guideLinesLocked :: bool
  draggingGuide :: "Guide option"
  canUndo :: bool
  isDragging :: bool
  isResizing :: bool
  resizeHandle :: "string option"
  dragOffset :: Point
  resizeStart :: ResizeStart
  history :: "ImageLayer list list"
  pendingUndoState :: "ImageLayer list option"

definition initialState :: AlignerState where
  "initialState =
     \<lparr>layers = [], selectedId = None,
      guideH1 = 0.2, guideH2 = 0.5, guideH3 = 0.8, guideV1 = 0.33, guideV2 = 0.67,
      alignModalOpen = False, alignModalLayerIndex = 0, alignModalStep = 0,
      alignWarning = None, snapToLayerCenters = True, guideLinesLocked = False,
      draggingGuide = None, canUndo = False, isDragging = False, isResizing = False,
      resizeHandle = None, dragOffset = \<lparr>x_p = 0, y_p = 0\<rparr>,
      resizeStart = \<lparr>mouseX = 0, mouseY = 0, start_width = 0, start_height = 0,
                      start_x = 0, start_y = 0\<rparr>,
      history = [], pendingUndoState = None\<rparr>"

definition ACCEPTED_TYPES :: "string list" where
  "ACCEPTED_TYPES = [''image/png'', ''image/jpeg'', ''image/jpg'', ''image/webp'', ''image/gif'']"

definition RESIZE_HANDLES :: "string list" where
  "RESIZE_HANDLES = [''n'', ''s'', ''e'', ''w'', ''nw'', ''ne'', ''sw'', ''se'']"

definition MAX_HISTORY :: nat where
  "MAX_HISTORY = 50"

text \<open>A JavaScript string is truthy when it is not empty; \<open>null\<close> is falsy.\<close>

definition truthy :: "string option \<Rightarrow> bool" where
  "truthy v = (case v of None \<Rightarrow> False | Some str \<Rightarrow> str \<noteq> [])"

text \<open>\<open>handle.includes(c)\<close> for a one-character \<open>c\<close>.\<close>

definition includes_c :: "string \<Rightarrow> char \<Rightarrow> bool" where
  "includes_c handle c = (c \<in> set handle)"

text \<open>Decimal rendering of a non-negative integer, as a template literal prints it.\<close>

fun string_of_nat :: "nat \<Rightarrow> string" where
  "string_of_nat n =
     (if n < 10 then [''0123456789'' ! n]
      else string_of_nat (n div 10) @ [''0123456789'' ! (n mod 10)])"

fun join :: "string \<Rightarrow> string list \<Rightarrow> string" where
  "join sep [] = []"
| "join sep [w] = w"
| "join sep (w # ws) = w @ sep @ join sep ws"

fun findIndex :: "('a \<Rightarrow> bool) \<Rightarrow> 'a list \<Rightarrow> nat option" where
  "findIndex P [] = None"
| "findIndex P (a # as) =
     (if P a then Some 0 else map_option Suc (findIndex P as))"

subsection \<open>History manager\<close>

definition pushHistory :: "AlignerState \<Rightarrow> AlignerState" where
  "pushHistory s =
     (let state = map (\<lambda>l. l\<lparr>visible := (visible l \<noteq> False),
                              refs := (case refs l of Some r \<Rightarrow> Some r | None \<Rightarrow> None)\<rparr>)
                      (layers s);
          pushed = history s @ [state];
          shifted = (if length pushed > MAX_HISTORY then tl pushed else pushed)
      in s\<lparr>history := shifted, canUndo := True\<rparr>)"

definition undo :: "AlignerState \<Rightarrow> AlignerState" where
  "undo s =
     (if length (history s) = 0 then s
      else (let prev = last (history s);
                popped = butlast (history s)
            in s\<lparr>history := popped, layers := prev, canUndo := (length popped > 0)\<rparr>))"

subsection \<open>Layer store\<close>

text \<open>
  \<open>addImages\<close>: \<open>now\<close> is the value of \<open>Date.now()\<close> and \<open>file_url\<close> the URL that
  \<open>URL.createObjectURL\<close> hands out for the file. The \<open>onload\<close> callback of each new
  image is the separate operation \<open>imageOnLoad\<close>.
\<close>

definition addImages :: "nat \<Rightarrow> File list \<Rightarrow> AlignerState \<Rightarrow> AlignerState" where
  "addImages now files s =
     (let fileArray = filter (\<lambda>f. file_type f \<in> set ACCEPTED_TYPES) files
      in if length fileArray = 0 then s
         else (let s1 = pushHistory s;
                   newLayers = map (\<lambda>(i, file).
                       \<lparr>id_l = string_of_nat now @ ''-'' @ string_of_nat i @ ''-'' @ file_name file,
                        src = file_url file,
                        x_l = 100 + real i * 40,
                        y_l = 100 + real i * 40,
                        width = 300,
                        height = 200,
                        aspectRatio = 1,
                        visible = True,
                        refs = None\<rparr>) (enumerate 0 fileArray)
               in s1\<lparr>layers := layers s1 @ newLayers\<rparr>))"

definition imageOnLoad :: "string \<Rightarrow> real \<Rightarrow> real \<Rightarrow> Rect option \<Rightarrow> AlignerState \<Rightarrow> AlignerState" where
  "imageOnLoad layerId imgWidth imgHeight rect s =
     (let aspectRatio' = imgWidth / imgHeight
      in s\<lparr>layers := map (\<lambda>ll.
            if id_l ll \<noteq> layerId then ll
            else (let height' = height ll;
                      width' = height' * aspectRatio';
                      x' = (case rect of Some r \<Rightarrow> (rect_width r - width') / 2 | None \<Rightarrow> x_l ll);
                      y' = (case rect of Some r \<Rightarrow> (rect_height r - height') / 2 | None \<Rightarrow> y_l ll)
                  in ll\<lparr>aspectRatio := aspectRatio', width := width', height := height',
                        x_l := x', y_l := y'\<rparr>)) (layers s)\<rparr>)"

definition runLayout :: "Rect option \<Rightarrow> AlignerState \<Rightarrow> AlignerState" where
  "runLayout canvas s =
     (case canvas of None \<Rightarrow> s
      | Some rect \<Rightarrow>
          if rect_width rect < 10 \<or> rect_height rect < 10 then s
          else (let targetHeight = rect_height rect * 0.8
                in s\<lparr>layers := map (\<lambda>layer.
                      (let width' = targetHeight * aspectRatio layer;
                           x' = (rect_width rect - width') / 2;
                           y' = (rect_height rect - targetHeight) / 2
                       in layer\<lparr>x_l := x', y_l := y', width := width', height := targetHeight\<rparr>))
                      (layers s)\<rparr>))"

text \<open>
  \<open>handleMoveLayer\<close> swaps two neighbours. Both call sites pass the index of a row, or
  \<open>-1\<close> when the selected id is stale; the guard on \<open>newIndex\<close> then lets through only
  an \<open>index\<close> inside the list, apart from \<open>index = -1\<close> going up and
  \<open>index = length\<close> going down, which no call site produces (their buttons are
  disabled) and where the JavaScript array would get a hole: there the model leaves the
  list as it is.
\<close>

definition handleMoveLayer :: "int \<Rightarrow> Direction \<Rightarrow> AlignerState \<Rightarrow> AlignerState" where
  "handleMoveLayer index direction s =
     (let newIndex = (case direction of Up \<Rightarrow> index + 1 | Down \<Rightarrow> index - 1)
      in if newIndex < 0 \<or> newIndex \<ge> int (length (layers s)) then s
         else (let s1 = pushHistory s;
                   prev = layers s1;
                   next = (if 0 \<le> index \<and> index < int (length prev)
                           then prev[nat index := prev ! nat newIndex,
                                     nat newIndex := prev ! nat index]
                           else prev)
               in s1\<lparr>layers := next\<rparr>))"

text \<open>
  \<open>handleLayerReorder\<close> is reached from \<open>handleLayerDrop\<close> only, with \<open>fromIndex\<close> found
  in the list; \<open>splice\<close> past the end inserts at the end, as \<open>take\<close> and \<open>drop\<close> do.
\<close>

definition handleLayerReorder :: "nat \<Rightarrow> nat \<Rightarrow> AlignerState \<Rightarrow> AlignerState" where
  "handleLayerReorder fromIndex toIndex s =
     (if fromIndex = toIndex then s
      else (let s1 = pushHistory s;
                prev = layers s1;
                removed = take 1 (drop fromIndex prev);
                next = take fromIndex prev @ drop (fromIndex + 1) prev;
                next' = take toIndex next @ removed @ drop toIndex next
            in s1\<lparr>layers := next'\<rparr>))"

definition handleLayerDrop :: "string \<Rightarrow> nat \<Rightarrow> AlignerState \<Rightarrow> AlignerState" where
  "handleLayerDrop layerId targetIndex s =
     (if layerId = [] \<or>
         (targetIndex < length (layers s) \<and> layerId = id_l (layers s ! targetIndex)) then s
      else (case findIndex (\<lambda>l. id_l l = layerId) (layers s) of
              None \<Rightarrow> s
            | Some fromIndex \<Rightarrow> handleLayerReorder fromIndex targetIndex s))"

definition handleToggleLayerVisibility :: "string \<Rightarrow> AlignerState \<Rightarrow> AlignerState" where
  "handleToggleLayerVisibility layerId s =
     (let s1 = pushHistory s
      in s1\<lparr>layers := map (\<lambda>l. if id_l l = layerId then l\<lparr>visible := (visible l = False)\<rparr> else l)
                            (layers s1)\<rparr>)"

definition handleRemoveLayer :: "AlignerState \<Rightarrow> AlignerState" where
  "handleRemoveLayer s =
     (if \<not> truthy (selectedId s) then s
      else (let s1 = pushHistory s
            in s1\<lparr>layers := filter (\<lambda>l. Some (id_l l) \<noteq> selectedId s) (layers s1),
                  selectedId := None\<rparr>))"

subsection \<open>Interaction state machine\<close>

fun snapLoop :: "real \<Rightarrow> real list \<Rightarrow> real \<Rightarrow> real \<Rightarrow> real" where
  "snapLoop value [] nearest minDist = nearest"
| "snapLoop value (s # ss) nearest minDist =
     (let d = \<bar>value - s\<bar>
      in if d < minDist then snapLoop value ss s d else snapLoop value ss nearest minDist)"

definition snapToNearest :: "real \<Rightarrow> real list \<Rightarrow> real" where
  "snapToNearest value snaps =
     (case sort snaps of
        [] \<Rightarrow> value
      | s0 # rest \<Rightarrow> snapLoop value (s0 # rest) s0 \<bar>value - s0\<bar>)"

definition handleGuideMouseDown :: "Guide \<Rightarrow> AlignerState \<Rightarrow> AlignerState" where
  "handleGuideMouseDown guide s =
     (if guideLinesLocked s then s else s\<lparr>draggingGuide := Some guide\<rparr>)"

text \<open>
  \<open>onHandleOrGuide\<close> is the outcome of the two \<open>target.closest\<close> tests of
  \<open>handleLayerMouseDown\<close>.
\<close>

definition handleLayerMouseDown :: "bool \<Rightarrow> real \<Rightarrow> real \<Rightarrow> string \<Rightarrow> AlignerState \<Rightarrow> AlignerState" where
  "handleLayerMouseDown onHandleOrGuide clientX clientY layerId s =
     (if onHandleOrGuide then s
      else if alignModalOpen s then s
      else (let s1 = s\<lparr>selectedId := Some layerId\<rparr>
            in case find (\<lambda>l. id_l l = layerId) (layers s) of
                 None \<Rightarrow> s1
               | Some layer \<Rightarrow>
                   s1\<lparr>pendingUndoState := Some (map (\<lambda>l. l) (layers s)),
                      dragOffset := \<lparr>x_p = clientX - x_l layer, y_p = clientY - y_l layer\<rparr>,
                      isDragging := True\<rparr>))"

definition handleResizeMouseDown :: "real \<Rightarrow> real \<Rightarrow> string \<Rightarrow> string \<Rightarrow> AlignerState \<Rightarrow> AlignerState" where
  "handleResizeMouseDown clientX clientY layerId handle s =
     (let s1 = s\<lparr>selectedId := Some layerId\<rparr>
      in case find (\<lambda>l. id_l l = layerId) (layers s) of
           None \<Rightarrow> s1
         | Some layer \<Rightarrow>
             s1\<lparr>pendingUndoState := Some (map (\<lambda>l. l) (layers s)),
                isResizing := True,
                resizeHandle := Some handle,
                resizeStart := \<lparr>mouseX = clientX, mouseY = clientY,
                                 start_width = width layer, start_height = height layer,
                                 start_x = x_l layer, start_y = y_l layer\<rparr>\<rparr>)"

text \<open>
  The body of the \<open>prev.map\<close> callback of the resize branch of \<open>handleMouseMove\<close>,
  for the selected layer. The assignments to \<open>width\<close>, \<open>height\<close>, \<open>x\<close> and \<open>y\<close> are
  numbered in the order in which the source makes them.
\<close>

definition resizeLayer :: "string \<Rightarrow> ResizeStart \<Rightarrow> real \<Rightarrow> real \<Rightarrow> ImageLayer \<Rightarrow> ImageLayer" where
  "resizeLayer handle start dx dy l =
     (let minSize = 50;
          width1 = (if includes_c handle CHR ''e'' then max minSize (start_width start + dx)
                    else start_width start);
          width2 = (if includes_c handle CHR ''w'' then max minSize (start_width start - dx)
                    else width1);
          x2 = (if includes_c handle CHR ''w'' then start_x start + start_width start - width2
                else start_x start);
          height1 = (if includes_c handle CHR ''s'' then max minSize (start_height start + dy)
                     else start_height start);
          height2 = (if includes_c handle CHR ''n'' then max minSize (start_height start - dy)
                     else height1);
          y2 = (if includes_c handle CHR ''n'' then start_y start + start_height start - height2
                else start_y start);
          ratio = aspectRatio l
      in if length handle = 2 then
           (if includes_c handle CHR ''e'' \<or> includes_c handle CHR ''w'' then
              (let height3 = width2 / ratio;
                   y3 = (if includes_c handle CHR ''n''
                         then start_y start + start_height start - height3 else y2)
               in l\<lparr>width := width2, height := height3, x_l := x2, y_l := y3\<rparr>)
            else
              (let width3 = height2 * ratio;
                   x3 = (if includes_c handle CHR ''w''
                         then start_x start + start_width start - width3 else x2)
               in l\<lparr>width := width3, height := height2, x_l := x3, y_l := y2\<rparr>))
         else l\<lparr>width := width2, height := height2, x_l := x2, y_l := y2\<rparr>)"

definition clamp01 :: "real \<Rightarrow> real" where
  "clamp01 t = max 0 (min 1 t)"

definition setGuide :: "Guide \<Rightarrow> real \<Rightarrow> real \<Rightarrow> AlignerState \<Rightarrow> AlignerState" where
  "setGuide g x y s =
     (case g of H1 \<Rightarrow> s\<lparr>guideH1 := y\<rparr> | H2 \<Rightarrow> s\<lparr>guideH2 := y\<rparr> | H3 \<Rightarrow> s\<lparr>guideH3 := y\<rparr>
              | V1 \<Rightarrow> s\<lparr>guideV1 := x\<rparr> | V2 \<Rightarrow> s\<lparr>guideV2 := x\<rparr>)"

text \<open>\<open>canvas\<close> is \<open>canvasRef.current?.getBoundingClientRect()\<close>.\<close>

definition handleMouseMove :: "real \<Rightarrow> real \<Rightarrow> Rect option \<Rightarrow> AlignerState \<Rightarrow> AlignerState" where
  "handleMouseMove clientX clientY canvas s =
     (case draggingGuide s of
        Some g \<Rightarrow>
          (case canvas of
             None \<Rightarrow> s
           | Some rect \<Rightarrow>
               (let y = clamp01 ((clientY - rect_top rect) / rect_height rect);
                    x = clamp01 ((clientX - rect_left rect) / rect_width rect);
                    ySnaps = map (\<lambda>l. (y_l l + height l / 2) / rect_height rect) (layers s);
                    xSnaps = map (\<lambda>l. (x_l l + width l / 2) / rect_width rect) (layers s);
                    threshold = 0.02;
                    snapping = (snapToLayerCenters s \<and> length (layers s) > 0);
                    y' = (if snapping \<and> g \<in> {H1, H2, H3} \<and> \<bar>y - snapToNearest y ySnaps\<bar> < threshold
                          then snapToNearest y ySnaps else y);
                    x' = (if snapping \<and> g \<notin> {H1, H2, H3} \<and> \<bar>x - snapToNearest x xSnaps\<bar> < threshold
                          then snapToNearest x xSnaps else x)
                in setGuide g x' y' s))
      | None \<Rightarrow>
          (case (if isResizing s \<and> truthy (selectedId s) \<and> truthy (resizeHandle s)
                 then resizeHandle s else None) of
             Some handle \<Rightarrow>
               (let start = resizeStart s;
                    dx = clientX - mouseX start;
                    dy = clientY - mouseY start
                in s\<lparr>layers := map (\<lambda>l. if Some (id_l l) \<noteq> selectedId s then l
                                         else resizeLayer handle start dx dy l)
                                   (layers s)\<rparr>)
           | None \<Rightarrow>
               if isDragging s \<and> truthy (selectedId s) then
                 s\<lparr>layers := map (\<lambda>l. if Some (id_l l) = selectedId s
                                       then l\<lparr>x_l := clientX - x_p (dragOffset s),
                                              y_l := clientY - y_p (dragOffset s)\<rparr>
                                       else l) (layers s)\<rparr>
               else s))"

definition handleMouseUp :: "AlignerState \<Rightarrow> AlignerState" where
  "handleMouseUp s =
     (let s1 = (case pendingUndoState s of
                  Some pending \<Rightarrow>
                    if isDragging s \<or> isResizing s then
                      (let pushed = history s @ [pending];
                           shifted = (if length pushed > MAX_HISTORY then tl pushed else pushed)
                       in s\<lparr>history := shifted, canUndo := True, pendingUndoState := None\<rparr>)
                    else s
                | None \<Rightarrow> s)
      in s1\<lparr>isDragging := False, isResizing := False, resizeHandle := None,
            draggingGuide := None\<rparr>)"

definition handleCanvasClick :: "AlignerState \<Rightarrow> AlignerState" where
  "handleCanvasClick s = s\<lparr>selectedId := None\<rparr>"

definition handleLayerPanelSelect :: "string \<Rightarrow> AlignerState \<Rightarrow> AlignerState" where
  "handleLayerPanelSelect layerId s =
     (let s1 = s\<lparr>selectedId := Some layerId\<rparr>
      in case find (\<lambda>l. id_l l = layerId) (layers s) of
           None \<Rightarrow> s1
         | Some layer \<Rightarrow> s1\<lparr>dragOffset := \<lparr>x_p = 0, y_p = 0\<rparr>\<rparr>)"

definition handleLayerClick :: "string \<Rightarrow> AlignerState \<Rightarrow> AlignerState" where
  "handleLayerClick layerId s = (if alignModalOpen s then s else s\<lparr>selectedId := Some layerId\<rparr>)"

subsection \<open>Reference-point wizard\<close>

definition defaultRefs :: LayerRefs where
  "defaultRefs =
     \<lparr>bodyTopY = 0.2, faceBottomY = 0.5, bodyBottomY = 0.8,
      eyeLeftX = 0.35, eyeLeftY = 0.45, eyeRightX = 0.65, eyeRightY = 0.45\<rparr>"

text \<open>\<open>layer.refs ?? defaultRefs()\<close>\<close>

definition refsOrDefault :: "ImageLayer \<Rightarrow> LayerRefs" where
  "refsOrDefault layer = (case refs layer of Some r \<Rightarrow> r | None \<Rightarrow> defaultRefs)"

definition stepKeys :: "string list" where
  "stepKeys = [''bodyTopY'', ''faceBottomY'', ''bodyBottomY'', ''eyeLeftX'', ''eyeRightX'']"

text \<open>
  The writes of one wizard click into a copy of the layer's refs; \<open>key\<close> is
  \<open>stepKeys[alignModalStep]\<close>, \<open>None\<close> when the step is past the end of the array.
\<close>

definition writeRefs :: "string option \<Rightarrow> real \<Rightarrow> real \<Rightarrow> LayerRefs \<Rightarrow> LayerRefs" where
  "writeRefs key clampedX clampedY refs0 =
     (let refs1 = (if key = Some ''bodyTopY'' then refs0\<lparr>bodyTopY := clampedY\<rparr> else refs0);
          refs2 = (if key = Some ''faceBottomY'' then refs1\<lparr>faceBottomY := clampedY\<rparr> else refs1);
          refs3 = (if key = Some ''bodyBottomY'' then refs2\<lparr>bodyBottomY := clampedY\<rparr> else refs2);
          refs4 = (if key = Some ''eyeLeftX''
                   then refs3\<lparr>eyeLeftX := clampedX, eyeLeftY := clampedY\<rparr> else refs3);
          refs5 = (if key = Some ''eyeRightX''
                   then refs4\<lparr>eyeRightX := clampedX, eyeRightY := clampedY\<rparr> else refs4)
      in refs5)"

text \<open>\<open>rect\<close> is the bounding rectangle of the wizard's canvas, the click's target.\<close>

definition handleAlignModalCanvasClick :: "real \<Rightarrow> real \<Rightarrow> Rect \<Rightarrow> AlignerState \<Rightarrow> AlignerState" where
  "handleAlignModalCanvasClick clientX clientY rect s =
     (if \<not> alignModalOpen s \<or> \<not> alignModalLayerIndex s < length (layers s) then s
      else (let localX = (clientX - rect_left rect) / rect_width rect;
                localY = (clientY - rect_top rect) / rect_height rect;
                clampedX = max 0 (min 1 localX);
                clampedY = max 0 (min 1 localY);
                layerId = id_l (layers s ! alignModalLayerIndex s);
                key = (if alignModalStep s < length stepKeys
                       then Some (stepKeys ! alignModalStep s) else None);
                s1 = s\<lparr>layers := map (\<lambda>l. if id_l l \<noteq> layerId then l
                                           else l\<lparr>refs := Some (writeRefs key clampedX clampedY
                                                                   (refsOrDefault l))\<rparr>)
                                      (layers s)\<rparr>
            in if alignModalStep s < 4 then s1\<lparr>alignModalStep := alignModalStep s + 1\<rparr>
               else if int (alignModalLayerIndex s) < int (length (layers s)) - 1
               then s1\<lparr>alignModalLayerIndex := alignModalLayerIndex s + 1, alignModalStep := 0\<rparr>
               else s1))"

definition handleAlignModalNext :: "AlignerState \<Rightarrow> AlignerState" where
  "handleAlignModalNext s =
     (if alignModalStep s < 4 then s\<lparr>alignModalStep := alignModalStep s + 1\<rparr>
      else if int (alignModalLayerIndex s) < int (length (layers s)) - 1
      then s\<lparr>alignModalLayerIndex := alignModalLayerIndex s + 1, alignModalStep := 0\<rparr>
      else s)"

definition handleAlignModalPrev :: "AlignerState \<Rightarrow> AlignerState" where
  "handleAlignModalPrev s =
     (if alignModalStep s > 0 then s\<lparr>alignModalStep := alignModalStep s - 1\<rparr>
      else if alignModalLayerIndex s > 0
      then s\<lparr>alignModalLayerIndex := alignModalLayerIndex s - 1, alignModalStep := 4\<rparr>
      else s)"

definition handleAutoAlignClick :: "AlignerState \<Rightarrow> AlignerState" where
  "handleAutoAlignClick s =
     (if length (layers s) < 1 then s
      else s\<lparr>alignWarning := None, alignModalOpen := True,
             alignModalLayerIndex := 0, alignModalStep := 0\<rparr>)"

definition closeAlignModal :: "AlignerState \<Rightarrow> AlignerState" where
  "closeAlignModal s = s\<lparr>alignModalOpen := False\<rparr>"

subsection \<open>Alignment solver\<close>

text \<open>The constants that \<open>runAutoAlign\<close> computes from the reference layer.\<close>

definition refEyeLeft :: "ImageLayer \<Rightarrow> Point" where
  "refEyeLeft refLayer =
     imageToCanvas refLayer (eyeLeftX (refsOrDefault refLayer)) (eyeLeftY (refsOrDefault refLayer))"

definition refEyeRight :: "ImageLayer \<Rightarrow> Point" where
  "refEyeRight refLayer =
     imageToCanvas refLayer (eyeRightX (refsOrDefault refLayer)) (eyeRightY (refsOrDefault refLayer))"

definition refBodyTop :: "ImageLayer \<Rightarrow> Point" where
  "refBodyTop refLayer = imageToCanvas refLayer 0.5 (bodyTopY (refsOrDefault refLayer))"

definition refFaceBottom :: "ImageLayer \<Rightarrow> Point" where
  "refFaceBottom refLayer = imageToCanvas refLayer 0.5 (faceBottomY (refsOrDefault refLayer))"

definition refBodyBottom :: "ImageLayer \<Rightarrow> Point" where
  "refBodyBottom refLayer = imageToCanvas refLayer 0.5 (bodyBottomY (refsOrDefault refLayer))"

definition refEyeSpanX :: "ImageLayer \<Rightarrow> real" where
  "refEyeSpanX refLayer = x_p (refEyeRight refLayer) - x_p (refEyeLeft refLayer)"

definition refBodyFaceSpanY :: "ImageLayer \<Rightarrow> real" where
  "refBodyFaceSpanY refLayer = y_p (refFaceBottom refLayer) - y_p (refBodyTop refLayer)"

definition refBodySpanY :: "ImageLayer \<Rightarrow> real" where
  "refBodySpanY refLayer = y_p (refBodyBottom refLayer) - y_p (refBodyTop refLayer)"

definition refEyeCenterX :: "ImageLayer \<Rightarrow> real" where
  "refEyeCenterX refLayer = (x_p (refEyeLeft refLayer) + x_p (refEyeRight refLayer)) / 2"

definition refBodyFaceMidY :: "ImageLayer \<Rightarrow> real" where
  "refBodyFaceMidY refLayer = (y_p (refBodyTop refLayer) + y_p (refFaceBottom refLayer)) / 2"

text \<open>The quantities that the callback derives from the layer's own refs.\<close>

definition dxEye :: "ImageLayer \<Rightarrow> real" where
  "dxEye layer = eyeRightX (refsOrDefault layer) - eyeLeftX (refsOrDefault layer)"

definition dyFaceBody :: "ImageLayer \<Rightarrow> real" where
  "dyFaceBody layer = faceBottomY (refsOrDefault layer) - bodyTopY (refsOrDefault layer)"

definition dyBody :: "ImageLayer \<Rightarrow> real" where
  "dyBody layer = bodyBottomY (refsOrDefault layer) - bodyTopY (refsOrDefault layer)"

definition eyeCenterFrac :: "ImageLayer \<Rightarrow> real" where
  "eyeCenterFrac layer = (eyeLeftX (refsOrDefault layer) + eyeRightX (refsOrDefault layer)) / 2"

definition bodyFaceMidFrac :: "ImageLayer \<Rightarrow> real" where
  "bodyFaceMidFrac layer = (bodyTopY (refsOrDefault layer) + faceBottomY (refsOrDefault layer)) / 2"

text \<open>
  The callback of \<open>prev.map\<close> in \<open>runAutoAlign\<close>: the layer it returns, and the
  warnings it pushes (at most one).
\<close>

definition alignLayer :: "ImageLayer \<Rightarrow> nat \<Rightarrow> ImageLayer \<Rightarrow> ImageLayer \<times> string list" where
  "alignLayer refLayer idx layer =
     (if idx = 0 then (layer, [])
      else if \<bar>dxEye layer\<bar> < 0.01 then (layer, [])
      else if \<bar>dyFaceBody layer\<bar> < 0.01 then (layer, [])
      else
        (let newWidth = refEyeSpanX refLayer / dxEye layer;
             newHeight = refBodyFaceSpanY refLayer / dyFaceBody layer;
             divRatio = newWidth / newHeight;
             R = aspectRatio layer;
             newX = (if divRatio > R then
                       (let imgW = newHeight * R;
                            left = (newWidth - imgW) / 2
                        in refEyeCenterX refLayer - left - eyeCenterFrac layer * imgW)
                     else refEyeCenterX refLayer - eyeCenterFrac layer * newWidth);
             newY = (if divRatio > R then
                       refBodyFaceMidY refLayer - bodyFaceMidFrac layer * newHeight
                     else
                       (let imgH = newWidth / R;
                            top = (newHeight - imgH) / 2
                        in refBodyFaceMidY refLayer - top - bodyFaceMidFrac layer * imgH));
             resultLayer = layer\<lparr>x_l := newX, y_l := newY, width := newWidth, height := newHeight\<rparr>;
             warnings =
               (if \<bar>dyBody layer\<bar> \<ge> 0.01 then
                  (let ourBodyBottom = y_p (imageToCanvas resultLayer 0.5
                                              (bodyBottomY (refsOrDefault layer)));
                       bodyBottomGap = \<bar>ourBodyBottom - y_p (refBodyBottom refLayer)\<bar>;
                       refFaceToBody =
                         (faceBottomY (refsOrDefault refLayer) - bodyTopY (refsOrDefault refLayer)) /
                         (bodyBottomY (refsOrDefault refLayer) - bodyTopY (refsOrDefault refLayer));
                       layerFaceToBody = dyFaceBody layer / dyBody layer;
                       positionMismatch = (bodyBottomGap > min (refBodySpanY refLayer) 50 * 0.2);
                       proportionMismatch = (\<bar>refFaceToBody - layerFaceToBody\<bar> > 0.15)
                   in if positionMismatch \<or> proportionMismatch
                      then [''Layer '' @ string_of_nat (idx + 1) @
                            '': body bottom doesn'' @ [CHR 0x27] @ ''t match reference'']
                      else [])
                else [])
         in (layer\<lparr>x_l := newX, y_l := newY, width := newWidth, height := newHeight\<rparr>, warnings)))"

text \<open>
  \<open>runAutoAlign\<close>. The callback of \<open>prev.map\<close> runs when React runs the updater handed
  to \<open>setLayers\<close>, after the handler has scheduled its updates and gone on: the test of
  \<open>warnings.length\<close> that follows \<open>setLayers\<close> reads the array while it is still empty,
  and \<open>alignWarning\<close> stays \<open>null\<close>. \<open>alignLayer\<close> gives, with the new layer, the
  warnings that the callback pushes once it runs.
\<close>

definition runAutoAlign :: "AlignerState \<Rightarrow> AlignerState" where
  "runAutoAlign s =
     (if length (layers s) < 2 then s
      else (let s1 = s\<lparr>alignWarning := None\<rparr>;
                refLayer = layers s ! 0;
                s2 = pushHistory s1;
                warnings = ([] :: string list);
                s3 = s2\<lparr>layers := map (\<lambda>(idx, layer). fst (alignLayer refLayer idx layer))
                                      (enumerate 0 (layers s2))\<rparr>;
                s4 = (if length warnings > 0
                      then s3\<lparr>alignWarning := Some (join ''; '' warnings)\<rparr> else s3)
            in s4\<lparr>alignModalOpen := False\<rparr>))"

subsection \<open>Events\<close>

text \<open>Every handler above as one event, and a run of the component from its initial state.\<close>

datatype Event =
    AddImages nat "File list"
  | ImageOnLoad string real real "Rect option"
  | RunLayout "Rect option"
  | MoveLayer int Direction
  | LayerDrop string nat
  | ToggleLayerVisibility string
  | RemoveLayer
  | GuideMouseDown Guide
  | LayerMouseDown bool real real string
  | ResizeMouseDown real real string string
  | MouseMove real real "Rect option"
  | MouseUp
  | CanvasClick
  | LayerPanelSelect string
  | LayerClick string
  | AlignModalCanvasClick real real Rect
  | AlignModalNext
  | AlignModalPrev
  | AutoAlignClick
  | CloseAlignModal
  | RunAutoAlign
  | Undo

fun handleEvent :: "Event \<Rightarrow> AlignerState \<Rightarrow> AlignerState" where
  "handleEvent (AddImages now files) s = addImages now files s"
| "handleEvent (ImageOnLoad layerId w h rect) s = imageOnLoad layerId w h rect s"
| "handleEvent (RunLayout canvas) s = runLayout canvas s"
| "handleEvent (MoveLayer index direction) s = handleMoveLayer index direction s"
| "handleEvent (LayerDrop layerId targetIndex) s = handleLayerDrop layerId targetIndex s"
| "handleEvent (ToggleLayerVisibility layerId) s = handleToggleLayerVisibility layerId s"
| "handleEvent RemoveLayer s = handleRemoveLayer s"
| "handleEvent (GuideMouseDown g) s = handleGuideMouseDown g s"
| "handleEvent (LayerMouseDown onHandleOrGuide cx cy layerId) s =
     handleLayerMouseDown onHandleOrGuide cx cy layerId s"
| "handleEvent (ResizeMouseDown cx cy layerId h) s = handleResizeMouseDown cx cy layerId h s"
| "handleEvent (MouseMove cx cy canvas) s = handleMouseMove cx cy canvas s"
| "handleEvent MouseUp s = handleMouseUp s"
| "handleEvent CanvasClick s = handleCanvasClick s"
| "handleEvent (LayerPanelSelect layerId) s = handleLayerPanelSelect layerId s"
| "handleEvent (LayerClick layerId) s = handleLayerClick layerId s"
| "handleEvent (AlignModalCanvasClick cx cy rect) s = handleAlignModalCanvasClick cx cy rect s"
| "handleEvent AlignModalNext s = handleAlignModalNext s"
| "handleEvent AlignModalPrev s = handleAlignModalPrev s"
| "handleEvent AutoAlignClick s = handleAutoAlignClick s"
| "handleEvent CloseAlignModal s = closeAlignModal s"
| "handleEvent RunAutoAlign s = runAutoAlign s"
| "handleEvent Undo s = undo s"

definition run :: "Event list \<Rightarrow> AlignerState \<Rightarrow> AlignerState" where
  "run events s = fold handleEvent events s"

subsection \<open>Checkpointed mutations\<close>

text \<open>
  The operations that the code checkpoints, as runs of events: the five handlers that
  call \<open>pushHistory\<close> before they change the layers (\<open>handleLayerReorder\<close> through
  \<open>handleLayerDrop\<close>), and the two gestures, a mouse-down on a layer or on a resize
  handle, any number of mouse moves, and the mouse-up that commits the pending snapshot.
\<close>

datatype Mutation =
    Add nat "File list"
  | Move int Direction
  | Reorder string nat
  | Toggle string
  | Remove
  | AlignBatch
  | DragGesture real real string "(real \<times> real \<times> Rect option) list"
  | ResizeGesture real real string string "(real \<times> real \<times> Rect option) list"

definition mouseMoves :: "(real \<times> real \<times> Rect option) list \<Rightarrow> Event list" where
  "mouseMoves moves = map (\<lambda>(cx, cy, canvas). MouseMove cx cy canvas) moves"

fun eventsOf :: "Mutation \<Rightarrow> Event list" where
  "eventsOf (Add now files) = [AddImages now files]"
| "eventsOf (Move index direction) = [MoveLayer index direction]"
| "eventsOf (Reorder layerId targetIndex) = [LayerDrop layerId targetIndex]"
| "eventsOf (Toggle layerId) = [ToggleLayerVisibility layerId]"
| "eventsOf Remove = [RemoveLayer]"
| "eventsOf AlignBatch = [RunAutoAlign]"
| "eventsOf (DragGesture cx cy layerId moves) =
     LayerMouseDown False cx cy layerId # mouseMoves moves @ [MouseUp]"
| "eventsOf (ResizeGesture cx cy layerId h moves) =
     ResizeMouseDown cx cy layerId h # mouseMoves moves @ [MouseUp]"

definition perform :: "Mutation \<Rightarrow> AlignerState \<Rightarrow> AlignerState" where
  "perform m s = run (eventsOf m) s"

text \<open>
  The guards of the source under which the operation gets past its early returns and
  takes its checkpoint.
\<close>

fun checkpoints :: "Mutation \<Rightarrow> AlignerState \<Rightarrow> bool" where
  "checkpoints (Add now files) s = (filter (\<lambda>f. file_type f \<in> set ACCEPTED_TYPES) files \<noteq> [])"
| "checkpoints (Move index direction) s =
     (let newIndex = (case direction of Up \<Rightarrow> index + 1 | Down \<Rightarrow> index - 1)
      in \<not> (newIndex < 0 \<or> newIndex \<ge> int (length (layers s))))"
| "checkpoints (Reorder layerId targetIndex) s =
     (\<not> (layerId = [] \<or>
         (targetIndex < length (layers s) \<and> layerId = id_l (layers s ! targetIndex))) \<and>
      (case findIndex (\<lambda>l. id_l l = layerId) (layers s) of
         None \<Rightarrow> False
       | Some fromIndex \<Rightarrow> fromIndex \<noteq> targetIndex))"
| "checkpoints (Toggle layerId) s = True"
| "checkpoints Remove s = truthy (selectedId s)"
| "checkpoints AlignBatch s = (\<not> length (layers s) < 2)"
| "checkpoints (DragGesture cx cy layerId moves) s =
     (\<not> alignModalOpen s \<and> find (\<lambda>l. id_l l = layerId) (layers s) \<noteq> None)"
| "checkpoints (ResizeGesture cx cy layerId h moves) s =
     (find (\<lambda>l. id_l l = layerId) (layers s) \<noteq> None)"

subsection \<open>Resize gestures\<close>

text \<open>
  The state between the mouse-down on a resize handle and the mouse-up: no guide is
  being dragged, and the handle, the selected layer and the snapshot of its starting
  geometry are those of the mouse-down.
\<close>

definition resizing :: "string \<Rightarrow> string \<Rightarrow> ResizeStart \<Rightarrow> AlignerState \<Rightarrow> bool" where
  "resizing layerId h st s \<longleftrightarrow>
     draggingGuide s = None \<and> isResizing s \<and> selectedId s = Some layerId \<and>
     resizeHandle s = Some h \<and> resizeStart s = st"

text \<open>What \<open>handleResizeMouseDown\<close> stores in \<open>resizeStart.current\<close>.\<close>

definition startOf :: "real \<Rightarrow> real \<Rightarrow> ImageLayer \<Rightarrow> ResizeStart" where
  "startOf cx cy layer =
     \<lparr>mouseX = cx, mouseY = cy, start_width = width layer, start_height = height layer,
      start_x = x_l layer, start_y = y_l layer\<rparr>"

subsection \<open>Binary64 rounding\<close>

text \<open>
  \<open>double t\<close> is the binary64 number nearest to \<open>t\<close>, ties going to the even
  significand: with \<open>2 ^ e \<le> \<bar>t\<bar> < 2 ^ (e + 1)\<close>, the multiple of \<open>2 ^ (e - 52)\<close> nearest
  to \<open>t\<close>. \<open>nbits n\<close> is the number of binary digits of \<open>n\<close>, from which \<open>exponent\<close>
  gets \<open>e\<close>. The exponent is not bounded: overflow to an infinity and the gradual
  underflow below \<open>2 ^ - 1022\<close> are not modelled.
\<close>

fun nbits :: "nat \<Rightarrow> nat" where
  "nbits n = (if n = 0 then 0 else Suc (nbits (n div 2)))"

definition exponent :: "real \<Rightarrow> int" where
  "exponent t =
     (if \<bar>t\<bar> \<ge> 1 then int (nbits (nat \<lfloor>\<bar>t\<bar>\<rfloor>)) - 1
      else - int (nbits (nat (\<lceil>1 / \<bar>t\<bar>\<rceil> - 1))))"

definition pow2 :: "int \<Rightarrow> real" where
  "pow2 k = (if k \<ge> 0 then 2 ^ nat k else 1 / 2 ^ nat (- k))"

definition roundEven :: "real \<Rightarrow> int" where
  "roundEven z =
     (let f = \<lfloor>z\<rfloor>; r = z - of_int f
      in if r < 1 / 2 then f else if r > 1 / 2 then f + 1 else if even f then f else f + 1)"

definition double :: "real \<Rightarrow> real" where
  "double t =
     (if t = 0 then 0
      else (let q = pow2 (exponent t - 52) in of_int (roundEven (t / q)) * q))"

subsection \<open>Coordinate mapper and alignment solver, operation by operation\<close>

text \<open>
  \<open>imageToCanvas\<close> and the body of \<open>runAutoAlign\<close> once more, every arithmetic
  operation of the source followed by the rounding \<open>rnd\<close>, in the order in which
  JavaScript evaluates it (\<open>x + left + u * imgW\<close> is \<open>(x + left) + (u * imgW)\<close>). A
  decimal literal of the source is the rounding of its value; 0.5 and the division by
  2 of a number are exact in binary. The fields of a layer and the refs are numbers
  of the state and are not rounded again.
\<close>

definition imageToCanvas_rnd :: "(real \<Rightarrow> real) \<Rightarrow> ImageLayer \<Rightarrow> real \<Rightarrow> real \<Rightarrow> Point" where
  "imageToCanvas_rnd rnd layer u v =
     (let R = aspectRatio layer;
          divRatio = rnd (width layer / height layer)
      in if divRatio > R then
           (let imgW = rnd (height layer * R);
                left = rnd (rnd (width layer - imgW) / 2)
            in \<lparr>x_p = rnd (rnd (x_l layer + left) + rnd (u * imgW)),
                y_p = rnd (y_l layer + rnd (v * height layer))\<rparr>)
         else
           (let imgH = rnd (width layer / R);
                top = rnd (rnd (height layer - imgH) / 2)
            in \<lparr>x_p = rnd (x_l layer + rnd (u * width layer)),
                y_p = rnd (rnd (y_l layer + top) + rnd (v * imgH))\<rparr>))"

text \<open>
  The solver. The warnings of the callback do not enter the layers it returns and are
  left to \<open>alignLayer\<close>.
\<close>

definition defaultRefs_rnd :: "(real \<Rightarrow> real) \<Rightarrow> LayerRefs" where
  "defaultRefs_rnd rnd =
     \<lparr>bodyTopY = rnd 0.2, faceBottomY = rnd 0.5, bodyBottomY = rnd 0.8,
      eyeLeftX = rnd 0.35, eyeLeftY = rnd 0.45, eyeRightX = rnd 0.65, eyeRightY = rnd 0.45\<rparr>"

definition refsOrDefault_rnd :: "(real \<Rightarrow> real) \<Rightarrow> ImageLayer \<Rightarrow> LayerRefs" where
  "refsOrDefault_rnd rnd layer = (case refs layer of Some r \<Rightarrow> r | None \<Rightarrow> defaultRefs_rnd rnd)"

definition refEyeSpanX_rnd :: "(real \<Rightarrow> real) \<Rightarrow> ImageLayer \<Rightarrow> real" where
  "refEyeSpanX_rnd rnd refLayer =
     (let refRefs = refsOrDefault_rnd rnd refLayer;
          refEyeLeft = imageToCanvas_rnd rnd refLayer (eyeLeftX refRefs) (eyeLeftY refRefs);
          refEyeRight = imageToCanvas_rnd rnd refLayer (eyeRightX refRefs) (eyeRightY refRefs)
      in rnd (x_p refEyeRight - x_p refEyeLeft))"

definition refBodyFaceSpanY_rnd :: "(real \<Rightarrow> real) \<Rightarrow> ImageLayer \<Rightarrow> real" where
  "refBodyFaceSpanY_rnd rnd refLayer =
     (let refRefs = refsOrDefault_rnd rnd refLayer;
          refBodyTop = imageToCanvas_rnd rnd refLayer 0.5 (bodyTopY refRefs);
          refFaceBottom = imageToCanvas_rnd rnd refLayer 0.5 (faceBottomY refRefs)
      in rnd (y_p refFaceBottom - y_p refBodyTop))"

definition refEyeCenterX_rnd :: "(real \<Rightarrow> real) \<Rightarrow> ImageLayer \<Rightarrow> real" where
  "refEyeCenterX_rnd rnd refLayer =
     (let refRefs = refsOrDefault_rnd rnd refLayer;
          refEyeLeft = imageToCanvas_rnd rnd refLayer (eyeLeftX refRefs) (eyeLeftY refRefs);
          refEyeRight = imageToCanvas_rnd rnd refLayer (eyeRightX refRefs) (eyeRightY refRefs)
      in rnd (rnd (x_p refEyeLeft + x_p refEyeRight) / 2))"

definition refBodyFaceMidY_rnd :: "(real \<Rightarrow> real) \<Rightarrow> ImageLayer \<Rightarrow> real" where
  "refBodyFaceMidY_rnd rnd refLayer =
     (let refRefs = refsOrDefault_rnd rnd refLayer;
          refBodyTop = imageToCanvas_rnd rnd refLayer 0.5 (bodyTopY refRefs);
          refFaceBottom = imageToCanvas_rnd rnd refLayer 0.5 (faceBottomY refRefs)
      in rnd (rnd (y_p refBodyTop + y_p refFaceBottom) / 2))"

definition dxEye_rnd :: "(real \<Rightarrow> real) \<Rightarrow> ImageLayer \<Rightarrow> real" where
  "dxEye_rnd rnd layer =
     rnd (eyeRightX (refsOrDefault_rnd rnd layer) - eyeLeftX (refsOrDefault_rnd rnd layer))"

definition dyFaceBody_rnd :: "(real \<Rightarrow> real) \<Rightarrow> ImageLayer \<Rightarrow> real" where
  "dyFaceBody_rnd rnd layer =
     rnd (faceBottomY (refsOrDefault_rnd rnd layer) - bodyTopY (refsOrDefault_rnd rnd layer))"

definition eyeCenterFrac_rnd :: "(real \<Rightarrow> real) \<Rightarrow> ImageLayer \<Rightarrow> real" where
  "eyeCenterFrac_rnd rnd layer =
     rnd (rnd (eyeLeftX (refsOrDefault_rnd rnd layer) + eyeRightX (refsOrDefault_rnd rnd layer)) / 2)"

definition bodyFaceMidFrac_rnd :: "(real \<Rightarrow> real) \<Rightarrow> ImageLayer \<Rightarrow> real" where
  "bodyFaceMidFrac_rnd rnd layer =
     rnd (rnd (bodyTopY (refsOrDefault_rnd rnd layer) + faceBottomY (refsOrDefault_rnd rnd layer)) / 2)"

definition newWidth_rnd :: "(real \<Rightarrow> real) \<Rightarrow> ImageLayer \<Rightarrow> ImageLayer \<Rightarrow> real" where
  "newWidth_rnd rnd refLayer layer = rnd (refEyeSpanX_rnd rnd refLayer / dxEye_rnd rnd layer)"

definition newHeight_rnd :: "(real \<Rightarrow> real) \<Rightarrow> ImageLayer \<Rightarrow> ImageLayer \<Rightarrow> real" where
  "newHeight_rnd rnd refLayer layer =
     rnd (refBodyFaceSpanY_rnd rnd refLayer / dyFaceBody_rnd rnd layer)"

definition alignLayer_rnd :: "(real \<Rightarrow> real) \<Rightarrow> ImageLayer \<Rightarrow> nat \<Rightarrow> ImageLayer \<Rightarrow> ImageLayer" where
  "alignLayer_rnd rnd refLayer idx layer =
     (if idx = 0 then layer
      else if \<bar>dxEye_rnd rnd layer\<bar> < rnd 0.01 then layer
      else if \<bar>dyFaceBody_rnd rnd layer\<bar> < rnd 0.01 then layer
      else
        (let newWidth = newWidth_rnd rnd refLayer layer;
             newHeight = newHeight_rnd rnd refLayer layer;
             divRatio = rnd (newWidth / newHeight);
             R = aspectRatio layer;
             newX = (if divRatio > R then
                       (let imgW = rnd (newHeight * R);
                            left = rnd (rnd (newWidth - imgW) / 2)
                        in rnd (rnd (refEyeCenterX_rnd rnd refLayer - left) -
                                rnd (eyeCenterFrac_rnd rnd layer * imgW)))
                     else rnd (refEyeCenterX_rnd rnd refLayer -
                               rnd (eyeCenterFrac_rnd rnd layer * newWidth)));
             newY = (if divRatio > R then
                       rnd (refBodyFaceMidY_rnd rnd refLayer -
                            rnd (bodyFaceMidFrac_rnd rnd layer * newHeight))
                     else
                       (let imgH = rnd (newWidth / R);
                            top = rnd (rnd (newHeight - imgH) / 2)
                        in rnd (rnd (refBodyFaceMidY_rnd rnd refLayer - top) -
                                rnd (bodyFaceMidFrac_rnd rnd layer * imgH))))
         in layer\<lparr>x_l := newX, y_l := newY, width := newWidth, height := newHeight\<rparr>))"

definition runAutoAlign_rnd :: "(real \<Rightarrow> real) \<Rightarrow> AlignerState \<Rightarrow> AlignerState" where
  "runAutoAlign_rnd rnd s =
     (if length (layers s) < 2 then s
      else (let s1 = s\<lparr>alignWarning := None\<rparr>;
                refLayer = layers s ! 0;
                s2 = pushHistory s1;
                s3 = s2\<lparr>layers := map (\<lambda>(idx, layer). alignLayer_rnd rnd refLayer idx layer)
                                      (enumerate 0 (layers s2))\<rparr>
            in s3\<lparr>alignModalOpen := False\<rparr>))"

text \<open>
  \<open>approx \<epsilon> j B v v0\<close>: the computed \<open>v\<close> is the exact \<open>v0\<close> up to \<open>j\<close> roundings of
  relative error \<open>\<epsilon>\<close> on a magnitude \<open>B\<close>.
\<close>

definition approx :: "real \<Rightarrow> nat \<Rightarrow> real \<Rightarrow> real \<Rightarrow> real \<Rightarrow> bool" where
  "approx \<epsilon> j B v v0 \<longleftrightarrow> \<bar>v - v0\<bar> \<le> ((1 + \<epsilon>) ^ j - 1) * B \<and> \<bar>v0\<bar> \<le> B"

subsection \<open>Example states\<close>

text \<open>
  One PNG is imported and decoded as an 800 by 400 image, which leaves a single layer
  of 400 by 200 with aspect ratio 2; then the wizard is opened on it.
\<close>

definition exampleFile :: File where
  "exampleFile = \<lparr>file_type = ''image/png'', file_name = ''a.png'', file_url = ''blob:a''\<rparr>"

definition exampleLoaded :: AlignerState where
  "exampleLoaded = run [AddImages 0 [exampleFile], ImageOnLoad ''0-0-a.png'' 800 400 None] initialState"

definition exampleWizard :: AlignerState where
  "exampleWizard = run [AutoAlignClick] exampleLoaded"

definition exampleRect :: Rect where
  "exampleRect = \<lparr>rect_left = 0, rect_top = 0, rect_width = 100, rect_height = 100\<rparr>"

text \<open>
  A resize gesture on that layer: the handle \<open>h\<close> is grabbed at (500, 300) and dragged
  over (480, 310) to (150, 460), 350 to the left and 160 down.
\<close>

definition exampleResize :: "string \<Rightarrow> AlignerState" where
  "exampleResize h =
     perform (ResizeGesture 500 300 ''0-0-a.png'' h [(480, 310, None), (150, 460, None)])
       exampleLoaded"

text \<open>
  Three layers for the solver: a reference layer without refs (the defaults apply), a
  layer with the refs of the specification's alignment scenario, and a layer whose eyes
  are 0.005 apart.
\<close>

definition exampleRef :: ImageLayer where
  "exampleRef =
     \<lparr>id_l = ''ref'', src = ''blob:r'', x_l = 100, y_l = 50, width = 400, height = 400,
      aspectRatio = 1, visible = True, refs = None\<rparr>"

definition exampleMarked :: ImageLayer where
  "exampleMarked =
     \<lparr>id_l = ''b'', src = ''blob:b'', x_l = 0, y_l = 0, width = 200, height = 200,
      aspectRatio = 1, visible = True,
      refs = Some \<lparr>bodyTopY = 0.2, faceBottomY = 0.6, bodyBottomY = 0.9,
                    eyeLeftX = 0.3, eyeLeftY = 0.4, eyeRightX = 0.7, eyeRightY = 0.4\<rparr>\<rparr>"

definition exampleDegenerate :: ImageLayer where
  "exampleDegenerate =
     \<lparr>id_l = ''c'', src = ''blob:c'', x_l = 30, y_l = 40, width = 300, height = 100,
      aspectRatio = 2, visible = False,
      refs = Some \<lparr>bodyTopY = 0.2, faceBottomY = 0.5, bodyBottomY = 0.8,
                    eyeLeftX = 0.5, eyeLeftY = 0.45, eyeRightX = 0.505, eyeRightY = 0.45\<rparr>\<rparr>"

definition exampleThree :: AlignerState where
  "exampleThree = initialState\<lparr>layers := [exampleRef, exampleMarked, exampleDegenerate]\<rparr>"

text \<open>
  Two layers for the rounded arithmetic: a layer whose eyes are 0.05 apart, next to
  \<open>exampleRef\<close>, and a layer whose position and height are no multiples of a power of
  two. \<open>exampleAdded\<close> is the state after a file is added and before its image has
  loaded: the layer is 300 by 200 with the aspect ratio 1 of a new layer.
\<close>

definition exampleNarrow :: ImageLayer where
  "exampleNarrow =
     \<lparr>id_l = ''e'', src = ''blob:e'', x_l = 0, y_l = 0, width = 200, height = 100,
      aspectRatio = 2, visible = True,
      refs = Some \<lparr>bodyTopY = double 0.2, faceBottomY = double 0.5, bodyBottomY = double 0.8,
                    eyeLeftX = double 0.4, eyeLeftY = double 0.45,
                    eyeRightX = double 0.45, eyeRightY = double 0.45\<rparr>\<rparr>"

definition exampleOffGrid :: ImageLayer where
  "exampleOffGrid =
     \<lparr>id_l = ''d'', src = ''blob:d'', x_l = double 0.1, y_l = double 0.2, width = 100.5,
      height = double 50.3, aspectRatio = 0.5, visible = True, refs = None\<rparr>"

definition exampleTwo :: AlignerState where
  "exampleTwo = initialState\<lparr>layers := [exampleRef, exampleNarrow]\<rparr>"

definition exampleAdded :: AlignerState where
  "exampleAdded = run [AddImages 0 [exampleFile]] initialState"

section \<open>History manager: the bound on the stack\<close>

lemma option_copy: "(case r of Some v \<Rightarrow> Some v | None \<Rightarrow> None) = r"
  by (cases r) simp_all

lemma pushHistory_eq:
  "pushHistory s =
     s\<lparr>history := (if length (history s) \<ge> MAX_HISTORY then tl (history s @ [layers s])
                    else history s @ [layers s]),
       canUndo := True\<rparr>"
  by (simp add: pushHistory_def Let_def option_copy)

lemma layers_pushHistory [simp]: "layers (pushHistory s) = layers s"
  by (simp add: pushHistory_eq)

lemma last_history_pushHistory [simp]: "last (history (pushHistory s)) = layers s"
  by (cases "history s") (simp_all add: pushHistory_eq MAX_HISTORY_def)

lemma history_pushHistory_nonempty [simp]: "history (pushHistory s) \<noteq> []"
  by (cases "history s") (simp_all add: pushHistory_eq MAX_HISTORY_def)

lemma length_history_pushHistory:
  "length (history s) \<le> MAX_HISTORY \<Longrightarrow> length (history (pushHistory s)) \<le> MAX_HISTORY"
  by (simp add: pushHistory_eq MAX_HISTORY_def)

lemma undo_after_push:
  "history s' = history (pushHistory s) \<Longrightarrow> layers (undo s') = layers s"
  by (simp add: undo_def Let_def)

lemma history_setGuide [simp]: "history (setGuide g x y s) = history s"
  by (cases g) (simp_all add: setGuide_def)

lemma history_handleMouseMove [simp]: "history (handleMouseMove cx cy canvas s) = history s"
  by (simp add: handleMouseMove_def Let_def split: option.splits)

lemma length_history_handleMouseUp:
  "length (history s) \<le> MAX_HISTORY \<Longrightarrow> length (history (handleMouseUp s)) \<le> MAX_HISTORY"
  by (simp add: handleMouseUp_def Let_def MAX_HISTORY_def split: option.splits)

lemma length_history_undo:
  "length (history s) \<le> MAX_HISTORY \<Longrightarrow> length (history (undo s)) \<le> MAX_HISTORY"
  by (auto simp add: undo_def Let_def)

lemma history_runAutoAlign:
  "history (runAutoAlign s) =
     (if length (layers s) < 2 then history s
      else history (pushHistory (s\<lparr>alignWarning := None\<rparr>)))"
  by (simp add: runAutoAlign_def Let_def)

lemma length_history_handleEvent:
  assumes "length (history s) \<le> MAX_HISTORY"
  shows "length (history (handleEvent e s)) \<le> MAX_HISTORY"
proof (cases e)
  case (AddImages now files)
  then show ?thesis using assms length_history_pushHistory [of s]
    by (simp add: addImages_def Let_def)
next
  case (MoveLayer index direction)
  then show ?thesis using assms length_history_pushHistory [of s]
    by (simp add: handleMoveLayer_def Let_def)
next
  case (LayerDrop layerId targetIndex)
  then show ?thesis using assms length_history_pushHistory [of s]
    by (simp add: handleLayerDrop_def handleLayerReorder_def Let_def split: option.splits)
next
  case (ToggleLayerVisibility layerId)
  then show ?thesis using assms length_history_pushHistory [of s]
    by (simp add: handleToggleLayerVisibility_def Let_def)
next
  case RemoveLayer
  then show ?thesis using assms length_history_pushHistory [of s]
    by (simp add: handleRemoveLayer_def Let_def)
next
  case MouseUp
  then show ?thesis using assms by (simp add: length_history_handleMouseUp)
next
  case RunAutoAlign
  then show ?thesis
    using assms length_history_pushHistory [of "s\<lparr>alignWarning := None\<rparr>"]
    by (simp add: history_runAutoAlign)
next
  case Undo
  then show ?thesis using assms by (simp add: length_history_undo)
qed (use assms in \<open>simp_all add: imageOnLoad_def runLayout_def handleGuideMouseDown_def
      handleLayerMouseDown_def handleResizeMouseDown_def handleCanvasClick_def
      handleLayerPanelSelect_def handleLayerClick_def handleAlignModalCanvasClick_def
      handleAlignModalNext_def handleAlignModalPrev_def handleAutoAlignClick_def
      closeAlignModal_def Let_def split: option.splits\<close>)

lemma length_history_fold:
  "length (history s) \<le> MAX_HISTORY \<Longrightarrow>
   length (history (fold handleEvent events s)) \<le> MAX_HISTORY"
  by (induction events arbitrary: s) (simp_all add: length_history_handleEvent)

lemma history_push_full:
  "length (history s) = 50 \<Longrightarrow> history (pushHistory s) = tl (history s) @ [layers s]"
  by (cases "history s") (simp_all add: pushHistory_eq MAX_HISTORY_def)

lemma history_mouseUp_full:
  "length (history s) = 50 \<Longrightarrow> isDragging s \<or> isResizing s \<Longrightarrow>
   pendingUndoState s = Some pending \<Longrightarrow>
   history (handleMouseUp s) = tl (history s) @ [pending]"
  by (cases "history s") (auto simp add: handleMouseUp_def MAX_HISTORY_def Let_def)

text \<open>
  C4. Whatever events the component has handled since it was mounted, its history
  holds at most 50 snapshots. A push onto a full history, by \<open>pushHistory\<close> or by the
  mouse-up that ends a drag or a resize, drops the oldest snapshot and appends the new
  one.
\<close>

theorem history_bounded:
  "length (history (run events initialState)) \<le> 50 \<and>
   (length (history s) = 50 \<longrightarrow>
      history (pushHistory s) = tl (history s) @ [layers s] \<and>
      ((isDragging s \<or> isResizing s) \<and> pendingUndoState s = Some pending \<longrightarrow>
         history (handleMouseUp s) = tl (history s) @ [pending]))"
proof -
  have "length (history initialState) \<le> MAX_HISTORY"
    by (simp add: initialState_def)
  then have "length (history (run events initialState)) \<le> MAX_HISTORY"
    unfolding run_def by (rule length_history_fold)
  then show ?thesis
    using history_push_full [of s] history_mouseUp_full [of s pending]
    by (simp add: MAX_HISTORY_def)
qed

theorem history_bounded_witness:
  "length (history (run (replicate 53 (ToggleLayerVisibility ''a'')) initialState)) \<le> 50 \<and>
   length (history (initialState\<lparr>history := replicate 50 [], isDragging := True,
                                  pendingUndoState := Some [exampleRef]\<rparr>)) = 50 \<and>
   history (pushHistory (initialState\<lparr>history := replicate 50 [], isDragging := True,
                                       pendingUndoState := Some [exampleRef]\<rparr>)) =
     replicate 49 [] @ [[]] \<and>
   history (handleMouseUp (initialState\<lparr>history := replicate 50 [], isDragging := True,
                                         pendingUndoState := Some [exampleRef]\<rparr>)) =
     replicate 49 [] @ [[exampleRef]]"
  using history_bounded [of "replicate 53 (ToggleLayerVisibility ''a'')"
     "initialState\<lparr>history := replicate 50 [], isDragging := True,
                   pendingUndoState := Some [exampleRef]\<rparr>" "[exampleRef]"]
  by (simp add: initialState_def)

section \<open>Rounded arithmetic\<close>

text \<open>
  \<open>double\<close> has a relative error of at most \<open>2 ^ - 53\<close>, the unit roundoff of binary64.
\<close>

declare nbits.simps [simp del]

lemma nbits_bounds: "0 < n \<Longrightarrow> 2 ^ (nbits n - 1) \<le> n \<and> n < 2 ^ nbits n"
proof (induction n rule: nbits.induct)
  case (1 n)
  show ?case
  proof (cases "n div 2 = 0")
    case True
    with "1.prems" have "n = 1" by linarith
    then show ?thesis by (simp add: nbits.simps [of "Suc 0"] nbits.simps [of 0])
  next
    case False
    then have pos: "0 < n div 2" by simp
    with "1.prems" "1.IH" have ih: "2 ^ (nbits (n div 2) - 1) \<le> n div 2" "n div 2 < 2 ^ nbits (n div 2)"
      by simp_all
    have nb: "nbits n = Suc (nbits (n div 2))"
      using "1.prems" by (simp add: nbits.simps [of n])
    have pos2: "0 < nbits (n div 2)"
      using pos by (simp add: nbits.simps [of "n div 2"])
    then have "(2::nat) ^ nbits (n div 2) = 2 * 2 ^ (nbits (n div 2) - 1)"
      by (cases "nbits (n div 2)") simp_all
    with ih have "2 ^ nbits (n div 2) \<le> n" by linarith
    moreover from ih have "n < 2 * 2 ^ nbits (n div 2)" by linarith
    ultimately show ?thesis by (simp add: nb)
  qed
qed

lemma real_pow2_le: "2 ^ k \<le> (n::nat) \<Longrightarrow> (2::real) ^ k \<le> real n"
proof -
  assume "2 ^ k \<le> n"
  then have "real (2 ^ k) \<le> real n" by (simp only: of_nat_le_iff)
  then show ?thesis by simp
qed

lemma real_lt_pow2: "(n::nat) < 2 ^ k \<Longrightarrow> real n + 1 \<le> 2 ^ k"
proof -
  assume "n < 2 ^ k"
  then have "Suc n \<le> 2 ^ k" by simp
  then have "real (Suc n) \<le> real (2 ^ k)" by (simp only: of_nat_le_iff)
  then show ?thesis by simp
qed

lemma pow2_pos [simp]: "0 < pow2 k"
  by (simp add: pow2_def)

lemma pow2_eq_powi: "pow2 k = 2 powi k"
  by (simp add: pow2_def power_int_def inverse_eq_divide power_one_over)

lemma pow2_add: "pow2 (a + b) = pow2 a * pow2 b"
  by (simp add: pow2_eq_powi power_int_add)

lemma pow2_of_nat: "pow2 (int n) = 2 ^ n"
  by (simp add: pow2_def)

lemma pow2_neg_nat: "pow2 (- int n) = 1 / 2 ^ n"
  by (cases "n = 0") (simp_all add: pow2_def)

lemma exponent_bounds:
  assumes "t \<noteq> 0"
  shows "pow2 (exponent t) \<le> \<bar>t\<bar> \<and> \<bar>t\<bar> < pow2 (exponent t + 1)"
proof (cases "\<bar>t\<bar> \<ge> 1")
  case True
  define n where "n = nat \<lfloor>\<bar>t\<bar>\<rfloor>"
  have n1: "0 < n" using True by (simp add: n_def)
  have rn: "real n = of_int \<lfloor>\<bar>t\<bar>\<rfloor>" by (simp add: n_def)
  have nle: "real n \<le> \<bar>t\<bar>" unfolding rn by (rule of_int_floor_le)
  have tlt: "\<bar>t\<bar> < real n + 1" unfolding rn by linarith
  from nbits_bounds [OF n1] have lo: "2 ^ (nbits n - 1) \<le> n" and hi: "n < 2 ^ nbits n" by simp_all
  have nbpos: "0 < nbits n" using n1 by (simp add: nbits.simps [of n])
  have e: "exponent t = int (nbits n - 1)"
    using True nbpos by (simp add: exponent_def n_def)
  have e1: "exponent t + 1 = int (nbits n)"
    using e nbpos by simp
  have a: "pow2 (exponent t) \<le> \<bar>t\<bar>"
    using real_pow2_le [OF lo] nle unfolding e pow2_of_nat by linarith
  have b: "\<bar>t\<bar> < pow2 (exponent t + 1)"
    using real_lt_pow2 [OF hi] tlt unfolding e1 pow2_of_nat by linarith
  from a b show ?thesis ..
next
  case False
  then have t1: "\<bar>t\<bar> < 1" by simp
  have tpos: "0 < \<bar>t\<bar>" using assms by simp
  define m where "m = \<lceil>1 / \<bar>t\<bar>\<rceil>"
  define n where "n = nat (m - 1)"
  have inv: "1 < 1 / \<bar>t\<bar>" using t1 tpos by simp
  then have m2: "2 \<le> m" unfolding m_def by linarith
  then have n1: "0 < n" and nm: "int n = m - 1" by (simp_all add: n_def)
  have mge: "1 / \<bar>t\<bar> \<le> of_int m" unfolding m_def by linarith
  have mlt: "of_int m - 1 < 1 / \<bar>t\<bar>" unfolding m_def by linarith
  from nbits_bounds [OF n1] have lo: "2 ^ (nbits n - 1) \<le> n" and hi: "n < 2 ^ nbits n" by simp_all
  have nbpos: "0 < nbits n" using n1 by (simp add: nbits.simps [of n])
  have e: "exponent t = - int (nbits n)"
    using False by (simp add: exponent_def n_def m_def)
  have e1: "exponent t + 1 = - int (nbits n - 1)"
    using e nbpos by simp
  have rn: "real n = of_int m - 1" using nm by linarith
  have "1 / \<bar>t\<bar> \<le> 2 ^ nbits n" using real_lt_pow2 [OF hi] mge rn by linarith
  then have "1 \<le> 2 ^ nbits n * \<bar>t\<bar>" using tpos by (simp add: field_simps)
  then have a: "pow2 (exponent t) \<le> \<bar>t\<bar>"
    unfolding e pow2_neg_nat by (simp add: field_simps)
  have "2 ^ (nbits n - 1) < 1 / \<bar>t\<bar>" using real_pow2_le [OF lo] mlt rn by linarith
  then have "2 ^ (nbits n - 1) * \<bar>t\<bar> < 1" using tpos by (simp add: field_simps)
  then have b: "\<bar>t\<bar> < pow2 (exponent t + 1)"
    unfolding e1 pow2_neg_nat by (simp add: field_simps)
  from a b show ?thesis ..
qed

lemma roundEven_error: "\<bar>of_int (roundEven z) - z\<bar> \<le> 1 / 2"
  unfolding roundEven_def Let_def by (auto; linarith)

lemma double_error: "\<bar>double t - t\<bar> \<le> (1 / 2 ^ 53) * \<bar>t\<bar>"
proof (cases "t = 0")
  case True
  then show ?thesis by (simp add: double_def)
next
  case False
  define q where "q = pow2 (exponent t - 52)"
  have qpos: "0 < q" by (simp add: q_def)
  have d: "double t = of_int (roundEven (t / q)) * q"
    using False by (simp add: double_def q_def Let_def)
  have "double t - t = (of_int (roundEven (t / q)) - t / q) * q"
    using qpos by (simp add: d field_simps)
  then have "\<bar>double t - t\<bar> = \<bar>of_int (roundEven (t / q)) - t / q\<bar> * q"
    using qpos by (simp add: abs_mult)
  also have "\<dots> \<le> (1 / 2) * q"
    using roundEven_error [of "t / q"] qpos by (simp add: mult_right_mono)
  also have "\<dots> = (1 / 2 ^ 53) * pow2 (exponent t)"
  proof -
    have "pow2 (exponent t) = pow2 ((exponent t - 52) + 52)" by simp
    also have "\<dots> = q * 2 ^ 52" unfolding pow2_add q_def by (simp add: pow2_def)
    finally show ?thesis by simp
  qed
  also have "\<dots> \<le> (1 / 2 ^ 53) * \<bar>t\<bar>"
    using exponent_bounds [OF False] by (simp add: mult_left_mono)
  finally show ?thesis by simp
qed

text \<open>
  The error after several roundings, for any rounding \<open>rnd\<close> of relative error at most
  \<open>\<epsilon>\<close>, and the four patterns of operations that the mapper and the solver consist of.
\<close>

lemma eps_nonneg:
  assumes "\<forall>t. \<bar>rnd t - t\<bar> \<le> \<epsilon> * \<bar>t\<bar>"
  shows "0 \<le> (\<epsilon>::real)"
proof -
  from assms have "\<bar>rnd 1 - 1\<bar> \<le> \<epsilon> * \<bar>1\<bar>" by blast
  then show ?thesis by simp
qed

lemma pow_ge_one: "0 \<le> (\<epsilon>::real) \<Longrightarrow> 1 \<le> (1 + \<epsilon>) ^ j"
  by (simp add: one_le_power)

lemma pow_mono: "0 \<le> (\<epsilon>::real) \<Longrightarrow> i \<le> j \<Longrightarrow> (1 + \<epsilon>) ^ i \<le> (1 + \<epsilon>) ^ j"
  by (simp add: power_increasing)

lemma approx_exact: "\<bar>v\<bar> \<le> B \<Longrightarrow> approx \<epsilon> 0 B v v"
  by (simp add: approx_def)

lemma approx_mono:
  assumes "0 \<le> \<epsilon>" and "i \<le> j" and "B \<le> B'" and "approx \<epsilon> i B v v0"
  shows "approx \<epsilon> j B' v v0"
proof -
  from assms(4) have e: "\<bar>v - v0\<bar> \<le> ((1 + \<epsilon>) ^ i - 1) * B" and b: "\<bar>v0\<bar> \<le> B"
    by (simp_all add: approx_def)
  from b have B0: "0 \<le> B" by linarith
  have c0: "0 \<le> (1 + \<epsilon>) ^ i - 1" using pow_ge_one [OF assms(1), of i] by simp
  have c1: "(1 + \<epsilon>) ^ i - 1 \<le> (1 + \<epsilon>) ^ j - 1" using pow_mono [OF assms(1,2)] by simp
  have "((1 + \<epsilon>) ^ i - 1) * B \<le> ((1 + \<epsilon>) ^ j - 1) * B'"
    using c0 c1 B0 assms(3) by (intro mult_mono) simp_all
  with e b assms(3) show ?thesis by (simp add: approx_def)
qed

lemma approx_leaf:
  assumes "0 \<le> \<epsilon>" and "\<bar>v\<bar> \<le> B"
  shows "approx \<epsilon> j B v v"
  using approx_mono [OF assms(1) _ _ approx_exact [OF assms(2)], of j B] by simp

lemma approx_rnd:
  assumes "\<forall>t. \<bar>rnd t - t\<bar> \<le> \<epsilon> * \<bar>t\<bar>" and "approx \<epsilon> j B t t0"
  shows "approx \<epsilon> (Suc j) B (rnd t) t0"
proof -
  have e0: "0 \<le> \<epsilon>" using assms(1) by (rule eps_nonneg)
  from assms(2) have e: "\<bar>t - t0\<bar> \<le> ((1 + \<epsilon>) ^ j - 1) * B" and b: "\<bar>t0\<bar> \<le> B"
    by (simp_all add: approx_def)
  have "\<bar>t\<bar> \<le> \<bar>t0\<bar> + \<bar>t - t0\<bar>" by linarith
  with e b have t: "\<bar>t\<bar> \<le> (1 + \<epsilon>) ^ j * B" by (simp add: algebra_simps)
  have "\<bar>rnd t - t\<bar> \<le> \<epsilon> * \<bar>t\<bar>" using assms(1) by blast
  also have "\<dots> \<le> \<epsilon> * ((1 + \<epsilon>) ^ j * B)" using t e0 by (rule mult_left_mono)
  finally have r: "\<bar>rnd t - t\<bar> \<le> \<epsilon> * ((1 + \<epsilon>) ^ j * B)" .
  have "\<bar>rnd t - t0\<bar> \<le> \<bar>rnd t - t\<bar> + \<bar>t - t0\<bar>" by linarith
  with r e have "\<bar>rnd t - t0\<bar> \<le> \<epsilon> * ((1 + \<epsilon>) ^ j * B) + ((1 + \<epsilon>) ^ j - 1) * B" by linarith
  also have "\<dots> = ((1 + \<epsilon>) ^ Suc j - 1) * B" by (simp add: algebra_simps)
  finally show ?thesis using b by (simp add: approx_def)
qed

lemma approx_add:
  assumes "approx \<epsilon> j B1 a a0" and "approx \<epsilon> j B2 b b0"
  shows "approx \<epsilon> j (B1 + B2) (a + b) (a0 + b0)"
proof -
  from assms have "\<bar>a - a0\<bar> \<le> ((1 + \<epsilon>) ^ j - 1) * B1" "\<bar>b - b0\<bar> \<le> ((1 + \<epsilon>) ^ j - 1) * B2"
    "\<bar>a0\<bar> \<le> B1" "\<bar>b0\<bar> \<le> B2" by (simp_all add: approx_def)
  then have "\<bar>(a + b) - (a0 + b0)\<bar> \<le> ((1 + \<epsilon>) ^ j - 1) * B1 + ((1 + \<epsilon>) ^ j - 1) * B2"
    and "\<bar>a0 + b0\<bar> \<le> B1 + B2" by linarith+
  then show ?thesis by (simp add: approx_def distrib_left)
qed

lemma approx_diff:
  assumes "approx \<epsilon> j B1 a a0" and "approx \<epsilon> j B2 b b0"
  shows "approx \<epsilon> j (B1 + B2) (a - b) (a0 - b0)"
proof -
  from assms have "\<bar>a - a0\<bar> \<le> ((1 + \<epsilon>) ^ j - 1) * B1" "\<bar>b - b0\<bar> \<le> ((1 + \<epsilon>) ^ j - 1) * B2"
    "\<bar>a0\<bar> \<le> B1" "\<bar>b0\<bar> \<le> B2" by (simp_all add: approx_def)
  then have "\<bar>(a - b) - (a0 - b0)\<bar> \<le> ((1 + \<epsilon>) ^ j - 1) * B1 + ((1 + \<epsilon>) ^ j - 1) * B2"
    and "\<bar>a0 - b0\<bar> \<le> B1 + B2" by linarith+
  then show ?thesis by (simp add: approx_def distrib_left)
qed

lemma approx_half:
  assumes "approx \<epsilon> j B v v0"
  shows "approx \<epsilon> j (B / 2) (v / 2) (v0 / 2)"
proof -
  from assms have "\<bar>v - v0\<bar> \<le> ((1 + \<epsilon>) ^ j - 1) * B" "\<bar>v0\<bar> \<le> B" by (simp_all add: approx_def)
  then have "\<bar>v / 2 - v0 / 2\<bar> \<le> (((1 + \<epsilon>) ^ j - 1) * B) / 2" and "\<bar>v0 / 2\<bar> \<le> B / 2"
    by linarith+
  then show ?thesis by (simp add: approx_def)
qed

lemma approx_bound: "approx \<epsilon> j B v v0 \<Longrightarrow> \<bar>v - v0\<bar> \<le> ((1 + \<epsilon>) ^ j - 1) * B"
  by (simp add: approx_def)

lemma rnd_abs_le:
  assumes "\<forall>t. \<bar>rnd t - t\<bar> \<le> (\<epsilon>::real) * \<bar>t\<bar>"
  shows "\<bar>rnd t\<bar> \<le> (1 + \<epsilon>) * \<bar>t\<bar>"
proof -
  define d where "d = \<epsilon> * \<bar>t\<bar>"
  have "\<bar>rnd t - t\<bar> \<le> d" using assms unfolding d_def by blast
  then have "\<bar>rnd t\<bar> \<le> \<bar>t\<bar> + d" by linarith
  then show ?thesis unfolding d_def by (simp add: distrib_right)
qed

text \<open>
  Subtracting a term and adding it back, each step rounded, against the number started from.
\<close>

lemma there_and_back:
  assumes std: "\<forall>t. \<bar>rnd t - t\<bar> \<le> (\<epsilon>::real) * \<bar>t\<bar>"
  shows "\<bar>rnd (rnd (C - T) + T) - C\<bar> \<le> ((1 + \<epsilon>) ^ 2 - 1) * (\<bar>C\<bar> + 2 * \<bar>T\<bar>)"
proof -
  have e0: "0 \<le> \<epsilon>" using std by (rule eps_nonneg)
  have T: "approx \<epsilon> j \<bar>T\<bar> T T" for j
    by (rule approx_leaf [OF e0]) simp
  have "approx \<epsilon> 0 (\<bar>C\<bar> + \<bar>T\<bar>) (C - T) (C - T)" by (rule approx_exact) linarith
  then have "approx \<epsilon> (Suc 0) (\<bar>C\<bar> + \<bar>T\<bar>) (rnd (C - T)) (C - T)"
    by (rule approx_rnd [OF std])
  then have "approx \<epsilon> (Suc 0) (\<bar>C\<bar> + \<bar>T\<bar> + \<bar>T\<bar>) (rnd (C - T) + T) (C - T + T)"
    using T by (rule approx_add)
  then have "approx \<epsilon> (Suc (Suc 0)) (\<bar>C\<bar> + \<bar>T\<bar> + \<bar>T\<bar>) (rnd (rnd (C - T) + T)) (C - T + T)"
    by (rule approx_rnd [OF std])
  then have "\<bar>rnd (rnd (C - T) + T) - (C - T + T)\<bar>
               \<le> ((1 + \<epsilon>) ^ Suc (Suc 0) - 1) * (\<bar>C\<bar> + \<bar>T\<bar> + \<bar>T\<bar>)"
    by (rule approx_bound)
  moreover have "Suc (Suc 0) = 2" by simp
  moreover have "\<bar>C\<bar> + \<bar>T\<bar> + \<bar>T\<bar> = \<bar>C\<bar> + 2 * \<bar>T\<bar>" by simp
  moreover have "C - T + T = C" by simp
  ultimately show ?thesis by (simp only:)
qed

text \<open>
  The same with two terms, subtracted and added back in the order of the source.
\<close>

lemma there_and_back_inset:
  assumes std: "\<forall>t. \<bar>rnd t - t\<bar> \<le> (\<epsilon>::real) * \<bar>t\<bar>"
  shows "\<bar>rnd (rnd (rnd (rnd (C - L) - T) + L) + T) - C\<bar>
           \<le> ((1 + \<epsilon>) ^ 4 - 1) * (\<bar>C\<bar> + 2 * \<bar>L\<bar> + 2 * \<bar>T\<bar>)"
proof -
  have e0: "0 \<le> \<epsilon>" using std by (rule eps_nonneg)
  have L: "approx \<epsilon> j \<bar>L\<bar> L L" for j
    by (rule approx_leaf [OF e0]) simp
  have T: "approx \<epsilon> j \<bar>T\<bar> T T" for j
    by (rule approx_leaf [OF e0]) simp
  have "approx \<epsilon> 0 (\<bar>C\<bar> + \<bar>L\<bar>) (C - L) (C - L)" by (rule approx_exact) linarith
  then have "approx \<epsilon> (Suc 0) (\<bar>C\<bar> + \<bar>L\<bar>) (rnd (C - L)) (C - L)"
    by (rule approx_rnd [OF std])
  then have "approx \<epsilon> (Suc 0) (\<bar>C\<bar> + \<bar>L\<bar> + \<bar>T\<bar>) (rnd (C - L) - T) (C - L - T)"
    using T by (rule approx_diff)
  then have "approx \<epsilon> (Suc (Suc 0)) (\<bar>C\<bar> + \<bar>L\<bar> + \<bar>T\<bar>) (rnd (rnd (C - L) - T)) (C - L - T)"
    by (rule approx_rnd [OF std])
  then have "approx \<epsilon> (Suc (Suc 0)) (\<bar>C\<bar> + \<bar>L\<bar> + \<bar>T\<bar> + \<bar>L\<bar>)
               (rnd (rnd (C - L) - T) + L) (C - L - T + L)"
    using L by (rule approx_add)
  then have "approx \<epsilon> (Suc (Suc (Suc 0))) (\<bar>C\<bar> + \<bar>L\<bar> + \<bar>T\<bar> + \<bar>L\<bar>)
               (rnd (rnd (rnd (C - L) - T) + L)) (C - L - T + L)"
    by (rule approx_rnd [OF std])
  then have "approx \<epsilon> (Suc (Suc (Suc 0))) (\<bar>C\<bar> + \<bar>L\<bar> + \<bar>T\<bar> + \<bar>L\<bar> + \<bar>T\<bar>)
               (rnd (rnd (rnd (C - L) - T) + L) + T) (C - L - T + L + T)"
    using T by (rule approx_add)
  then have "approx \<epsilon> (Suc (Suc (Suc (Suc 0)))) (\<bar>C\<bar> + \<bar>L\<bar> + \<bar>T\<bar> + \<bar>L\<bar> + \<bar>T\<bar>)
               (rnd (rnd (rnd (rnd (C - L) - T) + L) + T)) (C - L - T + L + T)"
    by (rule approx_rnd [OF std])
  then have "\<bar>rnd (rnd (rnd (rnd (C - L) - T) + L) + T) - (C - L - T + L + T)\<bar>
               \<le> ((1 + \<epsilon>) ^ Suc (Suc (Suc (Suc 0))) - 1) * (\<bar>C\<bar> + \<bar>L\<bar> + \<bar>T\<bar> + \<bar>L\<bar> + \<bar>T\<bar>)"
    by (rule approx_bound)
  moreover have "Suc (Suc (Suc (Suc 0))) = 4" by simp
  moreover have "\<bar>C\<bar> + \<bar>L\<bar> + \<bar>T\<bar> + \<bar>L\<bar> + \<bar>T\<bar> = \<bar>C\<bar> + 2 * \<bar>L\<bar> + 2 * \<bar>T\<bar>" by simp
  moreover have "C - L - T + L + T = C" by simp
  ultimately show ?thesis by (simp only:)
qed


lemma center_plain:
  assumes std: "\<forall>t. \<bar>rnd t - t\<bar> \<le> (\<epsilon>::real) * \<bar>t\<bar>"
  shows "\<bar>rnd (x + rnd (w / 2)) - (x + w / 2)\<bar> \<le> ((1 + \<epsilon>) ^ 2 - 1) * (\<bar>x\<bar> + \<bar>w\<bar>)"
proof -
  have e0: "0 \<le> \<epsilon>" using std by (rule eps_nonneg)
  have "approx \<epsilon> 0 \<bar>w\<bar> (w / 2) (w / 2)" by (rule approx_exact) simp
  then have "approx \<epsilon> (Suc 0) \<bar>w\<bar> (rnd (w / 2)) (w / 2)" by (rule approx_rnd [OF std])
  moreover have "approx \<epsilon> (Suc 0) \<bar>x\<bar> x x" by (rule approx_leaf [OF e0]) simp
  ultimately have "approx \<epsilon> (Suc 0) (\<bar>x\<bar> + \<bar>w\<bar>) (x + rnd (w / 2)) (x + w / 2)"
    using approx_add by blast
  then have "approx \<epsilon> (Suc (Suc 0)) (\<bar>x\<bar> + \<bar>w\<bar>) (rnd (x + rnd (w / 2))) (x + w / 2)"
    by (rule approx_rnd [OF std])
  then have "\<bar>rnd (x + rnd (w / 2)) - (x + w / 2)\<bar> \<le> ((1 + \<epsilon>) ^ Suc (Suc 0) - 1) * (\<bar>x\<bar> + \<bar>w\<bar>)"
    by (rule approx_bound)
  moreover have "Suc (Suc 0) = 2" by simp
  ultimately show ?thesis by (simp only:)
qed

lemma center_inset:
  assumes std: "\<forall>t. \<bar>rnd t - t\<bar> \<le> (\<epsilon>::real) * \<bar>t\<bar>"
  shows "\<bar>rnd (rnd (x + rnd (rnd (w - a) / 2)) + rnd (a / 2)) - (x + w / 2)\<bar>
           \<le> ((1 + \<epsilon>) ^ 4 - 1) * (\<bar>x\<bar> + \<bar>w\<bar> + \<bar>a\<bar>)"
proof -
  have e0: "0 \<le> \<epsilon>" using std by (rule eps_nonneg)
  let ?B = "\<bar>x\<bar> + (\<bar>w\<bar> + \<bar>a\<bar>) / 2 + \<bar>a\<bar> / 2"
  have "approx \<epsilon> 0 (\<bar>w\<bar> + \<bar>a\<bar>) (w - a) (w - a)" by (rule approx_exact) linarith
  then have "approx \<epsilon> (Suc 0) (\<bar>w\<bar> + \<bar>a\<bar>) (rnd (w - a)) (w - a)" by (rule approx_rnd [OF std])
  then have "approx \<epsilon> (Suc 0) ((\<bar>w\<bar> + \<bar>a\<bar>) / 2) (rnd (w - a) / 2) ((w - a) / 2)"
    by (rule approx_half)
  then have l: "approx \<epsilon> (Suc (Suc 0)) ((\<bar>w\<bar> + \<bar>a\<bar>) / 2) (rnd (rnd (w - a) / 2)) ((w - a) / 2)"
    by (rule approx_rnd [OF std])
  have "approx \<epsilon> (Suc (Suc 0)) \<bar>x\<bar> x x" by (rule approx_leaf [OF e0]) simp
  then have "approx \<epsilon> (Suc (Suc 0)) (\<bar>x\<bar> + (\<bar>w\<bar> + \<bar>a\<bar>) / 2)
               (x + rnd (rnd (w - a) / 2)) (x + (w - a) / 2)"
    using l by (rule approx_add)
  then have s: "approx \<epsilon> (Suc (Suc (Suc 0))) (\<bar>x\<bar> + (\<bar>w\<bar> + \<bar>a\<bar>) / 2)
               (rnd (x + rnd (rnd (w - a) / 2))) (x + (w - a) / 2)"
    by (rule approx_rnd [OF std])
  have "approx \<epsilon> 0 (\<bar>a\<bar> / 2) (a / 2) (a / 2)" by (rule approx_exact) simp
  then have "approx \<epsilon> (Suc 0) (\<bar>a\<bar> / 2) (rnd (a / 2)) (a / 2)" by (rule approx_rnd [OF std])
  then have t: "approx \<epsilon> (Suc (Suc (Suc 0))) (\<bar>a\<bar> / 2) (rnd (a / 2)) (a / 2)"
    by (rule approx_mono [OF e0, rotated 2]) simp_all
  from s t have "approx \<epsilon> (Suc (Suc (Suc 0))) ?B
               (rnd (x + rnd (rnd (w - a) / 2)) + rnd (a / 2)) (x + (w - a) / 2 + a / 2)"
    by (rule approx_add)
  then have "approx \<epsilon> (Suc (Suc (Suc (Suc 0)))) ?B
               (rnd (rnd (x + rnd (rnd (w - a) / 2)) + rnd (a / 2))) (x + (w - a) / 2 + a / 2)"
    by (rule approx_rnd [OF std])
  then have "approx \<epsilon> (Suc (Suc (Suc (Suc 0)))) (\<bar>x\<bar> + \<bar>w\<bar> + \<bar>a\<bar>)
               (rnd (rnd (x + rnd (rnd (w - a) / 2)) + rnd (a / 2))) (x + (w - a) / 2 + a / 2)"
  proof (rule approx_mono [OF e0, rotated 2])
    have "0 \<le> \<bar>w\<bar>" by simp
    then show "?B \<le> \<bar>x\<bar> + \<bar>w\<bar> + \<bar>a\<bar>" by (simp add: field_simps)
  qed simp
  then have "\<bar>rnd (rnd (x + rnd (rnd (w - a) / 2)) + rnd (a / 2)) - (x + (w - a) / 2 + a / 2)\<bar>
               \<le> ((1 + \<epsilon>) ^ Suc (Suc (Suc (Suc 0))) - 1) * (\<bar>x\<bar> + \<bar>w\<bar> + \<bar>a\<bar>)"
    by (rule approx_bound)
  moreover have "Suc (Suc (Suc (Suc 0))) = 4" by simp
  moreover have "x + (w - a) / 2 + a / 2 = x + w / 2" by (simp add: field_simps)
  ultimately show ?thesis by (simp only:)
qed

lemma widen:
  assumes e0: "0 \<le> (\<epsilon>::real)" and ij: "i + j \<le> n" and B0: "0 \<le> B0"
    and B: "B \<le> (1 + \<epsilon>) ^ j * B0"
  shows "((1 + \<epsilon>) ^ i - 1) * B \<le> ((1 + \<epsilon>) ^ n - 1) * B0"
proof -
  have c0: "0 \<le> (1 + \<epsilon>) ^ i - 1" using pow_ge_one [OF e0, of i] by simp
  have "((1 + \<epsilon>) ^ i - 1) * B \<le> ((1 + \<epsilon>) ^ i - 1) * ((1 + \<epsilon>) ^ j * B0)"
    using B c0 by (rule mult_left_mono)
  also have "\<dots> = ((1 + \<epsilon>) ^ (i + j) - (1 + \<epsilon>) ^ j) * B0"
    by (simp add: algebra_simps power_add)
  also have "\<dots> \<le> ((1 + \<epsilon>) ^ n - 1) * B0"
  proof (rule mult_right_mono [OF _ B0])
    show "(1 + \<epsilon>) ^ (i + j) - (1 + \<epsilon>) ^ j \<le> (1 + \<epsilon>) ^ n - 1"
      using pow_mono [OF e0 ij] pow_ge_one [OF e0, of j] by linarith
  qed
  finally show ?thesis .
qed

lemma scale_up: "1 \<le> (c::real) \<Longrightarrow> 0 \<le> v \<Longrightarrow> v \<le> c * v"
  by (simp add: mult_le_cancel_right1)

lemma magnitude_plain:
  assumes std: "\<forall>t. \<bar>rnd t - t\<bar> \<le> (\<epsilon>::real) * \<bar>t\<bar>"
  shows "\<bar>C\<bar> + 2 * \<bar>rnd (f * W)\<bar> \<le> (1 + \<epsilon>) ^ 1 * (\<bar>C\<bar> + (1 + 2 * \<bar>f\<bar>) * (\<bar>W\<bar> + \<bar>Q\<bar>))"
proof -
  define k where "k = 1 + \<epsilon>"
  have e0: "0 \<le> \<epsilon>" using std by (rule eps_nonneg)
  then have k1: "1 \<le> k" and k0: "0 \<le> k" by (simp_all add: k_def)
  have "\<bar>rnd (f * W)\<bar> \<le> k * \<bar>f * W\<bar>" unfolding k_def by (rule rnd_abs_le [OF std])
  then have T: "\<bar>rnd (f * W)\<bar> \<le> k * (\<bar>f\<bar> * \<bar>W\<bar>)" by (simp add: abs_mult)
  have C: "\<bar>C\<bar> \<le> k * \<bar>C\<bar>" using k1 by (rule scale_up) simp
  have "0 \<le> \<bar>f\<bar> * \<bar>Q\<bar>" and "0 \<le> \<bar>W\<bar> + \<bar>Q\<bar>" by simp_all
  then have "0 \<le> k * (2 * (\<bar>f\<bar> * \<bar>Q\<bar>))" and "0 \<le> k * (\<bar>W\<bar> + \<bar>Q\<bar>)" using k0 by simp_all
  with C T have "\<bar>C\<bar> + 2 * \<bar>rnd (f * W)\<bar>
        \<le> k * \<bar>C\<bar> + 2 * (k * (\<bar>f\<bar> * \<bar>W\<bar>)) + k * (2 * (\<bar>f\<bar> * \<bar>Q\<bar>)) + k * (\<bar>W\<bar> + \<bar>Q\<bar>)"
    by linarith
  also have "\<dots> = k * (\<bar>C\<bar> + (1 + 2 * \<bar>f\<bar>) * (\<bar>W\<bar> + \<bar>Q\<bar>))" by (simp add: algebra_simps)
  finally show ?thesis by (simp add: k_def)
qed

lemma magnitude_inset:
  assumes std: "\<forall>t. \<bar>rnd t - t\<bar> \<le> (\<epsilon>::real) * \<bar>t\<bar>"
  shows "\<bar>C\<bar> + 2 * \<bar>rnd (rnd (W - rnd Q) / 2)\<bar> + 2 * \<bar>rnd (f * rnd Q)\<bar>
           \<le> (1 + \<epsilon>) ^ 3 * (\<bar>C\<bar> + (1 + 2 * \<bar>f\<bar>) * (\<bar>W\<bar> + \<bar>Q\<bar>))"
proof -
  define k where "k = 1 + \<epsilon>"
  have e0: "0 \<le> \<epsilon>" using std by (rule eps_nonneg)
  then have k1: "1 \<le> k" and k0: "0 \<le> k" by (simp_all add: k_def)
  have k3: "1 \<le> k * k * k"
    using pow_ge_one [OF e0, of 3] by (simp add: k_def power3_eq_cube)
  have rn: "\<bar>rnd t\<bar> \<le> k * \<bar>t\<bar>" for t unfolding k_def by (rule rnd_abs_le [OF std])
  have a: "\<bar>rnd Q\<bar> \<le> k * \<bar>Q\<bar>" by (rule rn)
  have W: "\<bar>W\<bar> \<le> k * \<bar>W\<bar>" using k1 by (rule scale_up) simp
  have "\<bar>W - rnd Q\<bar> \<le> \<bar>W\<bar> + \<bar>rnd Q\<bar>" by linarith
  with a W have d0: "\<bar>W - rnd Q\<bar> \<le> k * (\<bar>W\<bar> + \<bar>Q\<bar>)" by (simp add: algebra_simps) 
  have "\<bar>rnd (W - rnd Q)\<bar> \<le> k * \<bar>W - rnd Q\<bar>" by (rule rn)
  also have "\<dots> \<le> k * (k * (\<bar>W\<bar> + \<bar>Q\<bar>))" using d0 k0 by (rule mult_left_mono)
  finally have d: "\<bar>rnd (W - rnd Q)\<bar> \<le> k * (k * (\<bar>W\<bar> + \<bar>Q\<bar>))" .
  have "\<bar>rnd (rnd (W - rnd Q) / 2)\<bar> \<le> k * \<bar>rnd (W - rnd Q) / 2\<bar>" by (rule rn)
  also have "\<dots> \<le> k * ((k * (k * (\<bar>W\<bar> + \<bar>Q\<bar>))) / 2)"
    using d k0 by (intro mult_left_mono) simp_all
  finally have L: "2 * \<bar>rnd (rnd (W - rnd Q) / 2)\<bar> \<le> k * k * k * (\<bar>W\<bar> + \<bar>Q\<bar>)" by simp
  have "\<bar>rnd (f * rnd Q)\<bar> \<le> k * \<bar>f * rnd Q\<bar>" by (rule rn)
  also have "\<dots> = k * (\<bar>f\<bar> * \<bar>rnd Q\<bar>)" by (simp add: abs_mult)
  also have "\<dots> \<le> k * (\<bar>f\<bar> * (k * \<bar>Q\<bar>))"
    using a k0 by (intro mult_left_mono) simp_all
  finally have T0: "\<bar>rnd (f * rnd Q)\<bar> \<le> k * k * (\<bar>f\<bar> * \<bar>Q\<bar>)" by (simp add: algebra_simps)
  have "k * k * (\<bar>f\<bar> * \<bar>Q\<bar>) \<le> k * (k * k * (\<bar>f\<bar> * \<bar>Q\<bar>))"
    using k1 by (rule scale_up) (simp add: k0)
  with T0 have T: "\<bar>rnd (f * rnd Q)\<bar> \<le> k * k * k * (\<bar>f\<bar> * \<bar>Q\<bar>)" by (simp add: algebra_simps)
  have C: "\<bar>C\<bar> \<le> k * k * k * \<bar>C\<bar>" using k3 by (rule scale_up) simp
  have "0 \<le> k * k * k * (2 * (\<bar>f\<bar> * \<bar>W\<bar>))" using k0 by simp
  with C L T have "\<bar>C\<bar> + 2 * \<bar>rnd (rnd (W - rnd Q) / 2)\<bar> + 2 * \<bar>rnd (f * rnd Q)\<bar>
        \<le> k * k * k * \<bar>C\<bar> + k * k * k * (\<bar>W\<bar> + \<bar>Q\<bar>) + 2 * (k * k * k * (\<bar>f\<bar> * \<bar>Q\<bar>))
            + k * k * k * (2 * (\<bar>f\<bar> * \<bar>W\<bar>))"
    by linarith
  also have "\<dots> = k * k * k * (\<bar>C\<bar> + (1 + 2 * \<bar>f\<bar>) * (\<bar>W\<bar> + \<bar>Q\<bar>))" by (simp add: algebra_simps)
  finally show ?thesis by (simp add: k_def power3_eq_cube)
qed


lemma magnitude_leaf:
  assumes std: "\<forall>t. \<bar>rnd t - t\<bar> \<le> (\<epsilon>::real) * \<bar>t\<bar>"
  shows "\<bar>x\<bar> + \<bar>w\<bar> + \<bar>rnd q\<bar> \<le> (1 + \<epsilon>) ^ 1 * (\<bar>x\<bar> + \<bar>w\<bar> + \<bar>q\<bar>)"
proof -
  define k where "k = 1 + \<epsilon>"
  have e0: "0 \<le> \<epsilon>" using std by (rule eps_nonneg)
  then have k1: "1 \<le> k" by (simp add: k_def)
  have a: "\<bar>rnd q\<bar> \<le> k * \<bar>q\<bar>" unfolding k_def by (rule rnd_abs_le [OF std])
  have x: "\<bar>x\<bar> \<le> k * \<bar>x\<bar>" using k1 by (rule scale_up) simp
  have w: "\<bar>w\<bar> \<le> k * \<bar>w\<bar>" using k1 by (rule scale_up) simp
  from a x w have "\<bar>x\<bar> + \<bar>w\<bar> + \<bar>rnd q\<bar> \<le> k * \<bar>x\<bar> + k * \<bar>w\<bar> + k * \<bar>q\<bar>" by linarith
  also have "\<dots> = k * (\<bar>x\<bar> + \<bar>w\<bar> + \<bar>q\<bar>)" by (simp add: algebra_simps)
  finally show ?thesis by (simp add: k_def)
qed

text \<open>
  The roundings that the examples below go through, each one evaluated from the
  definition of \<open>double\<close>.
\<close>

lemmas double_eval = double_def exponent_def pow2_def roundEven_def nbits.simps Let_def

lemma double_zero [simp]: "double 0 = 0"
  by (simp add: double_def)

lemma double_table:
  "double (- (14777436277309445 / 17592186044416)) = - (3694359069327361 / 4398046511104)"
  "double (- (2199023255552001 / 4398046511104)) = - (2199023255552001 / 4398046511104)"
  "double (- 40) = - 40"
  "double (1 / 100) = 5764607523034235 / 576460752303423488"
  "double (900719925474099 / 18014398509481984) = 900719925474099 / 18014398509481984"
  "double (1 / 10) = 3602879701896397 / 36028797018963968"
  "double (1 / 5) = 3602879701896397 / 18014398509481984"
  "double (5404319552844595 / 18014398509481984) = 5404319552844595 / 18014398509481984"
  "double (3152519739159347 / 9007199254740992) = 3152519739159347 / 9007199254740992"
  "double (7 / 20) = 3152519739159347 / 9007199254740992"
  "double (2 / 5) = 3602879701896397 / 9007199254740992"
  "double (1914029841632461 / 4503599627370496) = 1914029841632461 / 4503599627370496"
  "double (9 / 20) = 8106479329266893 / 18014398509481984"
  "double (1 / 2) = 1 / 2"
  "double (13 / 20) = 5854679515581645 / 9007199254740992"
  "double (12610078956637389 / 18014398509481984) = 3152519739159347 / 4503599627370496"
  "double (4 / 5) = 3602879701896397 / 4503599627370496"
  "double (15312238733059687 / 18014398509481984) = 1914029841632461 / 2251799813685248"
  "double (1) = 1"
  "double (2357352929951744 / 1179849277378833) = 4499122888178279 / 2251799813685248"
  "double (5277655813324801 / 879609302220800) = 6755399441055745 / 1125899906842624"
  "double (3539547832136499 / 281474976710656) = 3539547832136499 / 281474976710656"
  "double (3539547832136499 / 140737488355328) = 3539547832136499 / 140737488355328"
  "double (456665002215368269 / 18014398509481984) = 7135390659615129 / 281474976710656"
  "double (2651142436893491 / 70368744177664) = 2651142436893491 / 70368744177664"
  "double (1360987807391363789 / 36028797018963968) = 5316358622622515 / 140737488355328"
  "double (50) = 50"
  "double (201 / 4) = 201 / 4"
  "double (503 / 10) = 3539547832136499 / 70368744177664"
  "double (14172265077381529 / 281474976710656) = 1771533134672691 / 35184372088832"
  "double (1814049929904835789 / 36028797018963968) = 7086132538690765 / 140737488355328"
  "double (10604569747573965 / 140737488355328) = 2651142436893491 / 35184372088832"
  "double (90071992547409925 / 1125899906842624) = 80"
  "double (120) = 120"
  "double (130) = 130"
  "double (78812993478983675 / 562949953421312) = 140"
  "double (202661983231672325 / 1125899906842624) = 180"
  "double (190) = 190"
  "double (200) = 200"
  "double (230) = 230"
  "double (240) = 240"
  "double (250) = 250"
  "double (146366987889541125 / 562949953421312) = 260"
  "double (300) = 300"
  "double (5277655813324801 / 17592186044416) = 5277655813324801 / 17592186044416"
  "double (47850746040811525 / 140737488355328) = 5981343255101441 / 17592186044416"
  "double (360) = 360"
  "double (380) = 380"
  "double (400) = 400"
  "double (432345564227567616 / 1080863910568919) = 400"
  "double (600) = 600"
  "double (800) = 800"
  "double (3518437208883201 / 4398046511104) = 3518437208883201 / 4398046511104"
  "double (3518437208883201 / 2199023255552) = 3518437208883201 / 2199023255552"
  "double (720575940379279360 / 300239975158033) = 5277655813324801 / 2199023255552"
  by (simp_all add: double_eval)


lemma double_model: "\<forall>t. \<bar>double t - t\<bar> \<le> (1 / 2 ^ 53) * \<bar>t\<bar>"
  using double_error by blast

section \<open>Coordinate mapper: the centre of the box\<close>

lemma imageToCanvas_rnd_exact: "imageToCanvas_rnd (\<lambda>t. t) layer u v = imageToCanvas layer u v"
  by (simp add: imageToCanvas_rnd_def imageToCanvas_def)

lemma imageToCanvas_rnd_wide:
  assumes "rnd (width layer / height layer) > aspectRatio layer"
  shows "x_p (imageToCanvas_rnd rnd layer u v) =
           rnd (rnd (x_l layer + rnd (rnd (width layer - rnd (height layer * aspectRatio layer)) / 2)) +
                rnd (u * rnd (height layer * aspectRatio layer)))"
    and "y_p (imageToCanvas_rnd rnd layer u v) = rnd (y_l layer + rnd (v * height layer))"
  using assms by (simp_all add: imageToCanvas_rnd_def Let_def)

lemma imageToCanvas_rnd_tall:
  assumes "\<not> rnd (width layer / height layer) > aspectRatio layer"
  shows "x_p (imageToCanvas_rnd rnd layer u v) = rnd (x_l layer + rnd (u * width layer))"
    and "y_p (imageToCanvas_rnd rnd layer u v) =
           rnd (rnd (y_l layer + rnd (rnd (height layer - rnd (width layer / aspectRatio layer)) / 2)) +
                rnd (v * rnd (width layer / aspectRatio layer)))"
  using assms by (simp_all add: imageToCanvas_rnd_def Let_def)

lemma imageToCanvas_center_exact:
  "imageToCanvas layer 0.5 0.5 =
     \<lparr>x_p = x_l layer + width layer / 2, y_p = y_l layer + height layer / 2\<rparr>"
  by (simp add: imageToCanvas_def Let_def field_simps)

lemma imageToCanvas_rnd_center:
  assumes std: "\<forall>t. \<bar>rnd t - t\<bar> \<le> \<epsilon> * \<bar>t\<bar>"
  shows "\<bar>x_p (imageToCanvas_rnd rnd layer 0.5 0.5) - (x_l layer + width layer / 2)\<bar>
           \<le> ((1 + \<epsilon>) ^ 5 - 1) *
              (\<bar>x_l layer\<bar> + \<bar>width layer\<bar> + \<bar>height layer * aspectRatio layer\<bar>)"
    and "\<bar>y_p (imageToCanvas_rnd rnd layer 0.5 0.5) - (y_l layer + height layer / 2)\<bar>
           \<le> ((1 + \<epsilon>) ^ 5 - 1) *
              (\<bar>y_l layer\<bar> + \<bar>height layer\<bar> + \<bar>width layer / aspectRatio layer\<bar>)"
proof -
  have e0: "0 \<le> \<epsilon>" using std by (rule eps_nonneg)
  have half: "0.5 * t = t / 2" for t :: real by simp
  show "\<bar>x_p (imageToCanvas_rnd rnd layer 0.5 0.5) - (x_l layer + width layer / 2)\<bar>
           \<le> ((1 + \<epsilon>) ^ 5 - 1) *
              (\<bar>x_l layer\<bar> + \<bar>width layer\<bar> + \<bar>height layer * aspectRatio layer\<bar>)"
  proof (cases "rnd (width layer / height layer) > aspectRatio layer")
    case True
    have "\<bar>x_p (imageToCanvas_rnd rnd layer 0.5 0.5) - (x_l layer + width layer / 2)\<bar>
            \<le> ((1 + \<epsilon>) ^ 4 - 1) *
               (\<bar>x_l layer\<bar> + \<bar>width layer\<bar> + \<bar>rnd (height layer * aspectRatio layer)\<bar>)"
      unfolding imageToCanvas_rnd_wide [where rnd = rnd and layer = layer, OF True] half by (rule center_inset [OF std])
    also have "\<dots> \<le> ((1 + \<epsilon>) ^ 5 - 1) *
               (\<bar>x_l layer\<bar> + \<bar>width layer\<bar> + \<bar>height layer * aspectRatio layer\<bar>)"
      by (rule widen [OF e0 _ _ magnitude_leaf [OF std]]) simp_all
    finally show ?thesis .
  next
    case False
    have "\<bar>x_p (imageToCanvas_rnd rnd layer 0.5 0.5) - (x_l layer + width layer / 2)\<bar>
            \<le> ((1 + \<epsilon>) ^ 2 - 1) * (\<bar>x_l layer\<bar> + \<bar>width layer\<bar>)"
      unfolding imageToCanvas_rnd_tall [where rnd = rnd and layer = layer, OF False] half by (rule center_plain [OF std])
    also have "\<dots> \<le> ((1 + \<epsilon>) ^ 5 - 1) *
               (\<bar>x_l layer\<bar> + \<bar>width layer\<bar> + \<bar>height layer * aspectRatio layer\<bar>)"
      by (rule widen [OF e0, of 2 0]) simp_all
    finally show ?thesis .
  qed
  show "\<bar>y_p (imageToCanvas_rnd rnd layer 0.5 0.5) - (y_l layer + height layer / 2)\<bar>
           \<le> ((1 + \<epsilon>) ^ 5 - 1) *
              (\<bar>y_l layer\<bar> + \<bar>height layer\<bar> + \<bar>width layer / aspectRatio layer\<bar>)"
  proof (cases "rnd (width layer / height layer) > aspectRatio layer")
    case True
    have "\<bar>y_p (imageToCanvas_rnd rnd layer 0.5 0.5) - (y_l layer + height layer / 2)\<bar>
            \<le> ((1 + \<epsilon>) ^ 2 - 1) * (\<bar>y_l layer\<bar> + \<bar>height layer\<bar>)"
      unfolding imageToCanvas_rnd_wide [where rnd = rnd and layer = layer, OF True] half by (rule center_plain [OF std])
    also have "\<dots> \<le> ((1 + \<epsilon>) ^ 5 - 1) *
               (\<bar>y_l layer\<bar> + \<bar>height layer\<bar> + \<bar>width layer / aspectRatio layer\<bar>)"
      by (rule widen [OF e0, of 2 0]) simp_all
    finally show ?thesis .
  next
    case False
    have "\<bar>y_p (imageToCanvas_rnd rnd layer 0.5 0.5) - (y_l layer + height layer / 2)\<bar>
            \<le> ((1 + \<epsilon>) ^ 4 - 1) *
               (\<bar>y_l layer\<bar> + \<bar>height layer\<bar> + \<bar>rnd (width layer / aspectRatio layer)\<bar>)"
      unfolding imageToCanvas_rnd_tall [where rnd = rnd and layer = layer, OF False] half by (rule center_inset [OF std])
    also have "\<dots> \<le> ((1 + \<epsilon>) ^ 5 - 1) *
               (\<bar>y_l layer\<bar> + \<bar>height layer\<bar> + \<bar>width layer / aspectRatio layer\<bar>)"
      by (rule widen [OF e0 _ _ magnitude_leaf [OF std]]) simp_all
    finally show ?thesis .
  qed
qed

lemma exampleOffGrid_fields:
  "x_l exampleOffGrid = 3602879701896397 / 36028797018963968"
  "y_l exampleOffGrid = 3602879701896397 / 18014398509481984"
  "width exampleOffGrid = 201 / 2"
  "height exampleOffGrid = 3539547832136499 / 70368744177664"
  "aspectRatio exampleOffGrid = 1 / 2"
  by (simp_all add: exampleOffGrid_def double_table)

lemma imageToCanvas_exampleOffGrid:
  "x_p (imageToCanvas_rnd double exampleOffGrid 0.5 0.5) = 1771533134672691 / 35184372088832"
  by (simp add: imageToCanvas_rnd_def exampleOffGrid_fields double_table Let_def)

lemma center_exampleOffGrid:
  "double (x_l exampleOffGrid + double (width exampleOffGrid / 2)) =
     7086132538690765 / 140737488355328"
  by (simp add: exampleOffGrid_fields double_table)

text \<open>
  C5, as the code has it. For a layer with positive width, height and aspect ratio,
  the image point (0.5, 0.5) is mapped to the centre of the layer's bounding box up to
  the rounding of the arithmetic, in the branch where the box is wider than the image
  and in the other branch alike: when every operation is rounded with a relative
  error of at most \<open>\<epsilon>\<close>, the x-coordinate is within
  \<open>((1 + \<epsilon>) ^ 5 - 1) * (\<bar>x\<bar> + \<bar>width\<bar> + \<bar>height * aspectRatio\<bar>)\<close> of \<open>x + width / 2\<close>
  and the y-coordinate within
  \<open>((1 + \<epsilon>) ^ 5 - 1) * (\<bar>y\<bar> + \<bar>height\<bar> + \<bar>width / aspectRatio\<bar>)\<close> of \<open>y + height / 2\<close>.
  Binary64 has \<open>\<epsilon> = 2 ^ - 53\<close>; exact arithmetic has \<open>\<epsilon> = 0\<close>, and there the point is
  the centre itself.
\<close>

theorem imageToCanvas_center_within:
  assumes "\<forall>t. \<bar>rnd t - t\<bar> \<le> \<epsilon> * \<bar>t\<bar>"
    and "width layer > 0" and "height layer > 0" and "aspectRatio layer > 0"
  shows "\<bar>x_p (imageToCanvas_rnd rnd layer 0.5 0.5) - (x_l layer + width layer / 2)\<bar>
           \<le> ((1 + \<epsilon>) ^ 5 - 1) *
              (\<bar>x_l layer\<bar> + \<bar>width layer\<bar> + \<bar>height layer * aspectRatio layer\<bar>) \<and>
         \<bar>y_p (imageToCanvas_rnd rnd layer 0.5 0.5) - (y_l layer + height layer / 2)\<bar>
           \<le> ((1 + \<epsilon>) ^ 5 - 1) *
              (\<bar>y_l layer\<bar> + \<bar>height layer\<bar> + \<bar>width layer / aspectRatio layer\<bar>)"
  using imageToCanvas_rnd_center [OF assms(1)] by (rule conjI)

theorem imageToCanvas_center_within_witness:
  "(\<forall>t. \<bar>double t - t\<bar> \<le> (1 / 2 ^ 53) * \<bar>t\<bar>) \<and>
   width exampleOffGrid > 0 \<and> height exampleOffGrid > 0 \<and> aspectRatio exampleOffGrid > 0 \<and>
   \<bar>x_p (imageToCanvas_rnd double exampleOffGrid 0.5 0.5) -
      (x_l exampleOffGrid + width exampleOffGrid / 2)\<bar>
     \<le> ((1 + 1 / 2 ^ 53) ^ 5 - 1) *
        (\<bar>x_l exampleOffGrid\<bar> + \<bar>width exampleOffGrid\<bar> +
         \<bar>height exampleOffGrid * aspectRatio exampleOffGrid\<bar>) \<and>
   width exampleRef > 0 \<and> height exampleRef > 0 \<and> aspectRatio exampleRef > 0 \<and>
   imageToCanvas exampleRef 0.5 0.5 = \<lparr>x_p = 300, y_p = 250\<rparr>"
proof -
  have "width exampleOffGrid > 0 \<and> height exampleOffGrid > 0 \<and> aspectRatio exampleOffGrid > 0"
    by (simp add: exampleOffGrid_fields)
  moreover have "width exampleRef > 0 \<and> height exampleRef > 0 \<and> aspectRatio exampleRef > 0"
    by (simp add: exampleRef_def)
  moreover have "x_l exampleRef + width exampleRef / 2 = 300"
    "y_l exampleRef + height exampleRef / 2 = 250"
    by (simp_all add: exampleRef_def)
  moreover have "imageToCanvas exampleRef 0.5 0.5 =
      \<lparr>x_p = x_p (imageToCanvas exampleRef 0.5 0.5), y_p = y_p (imageToCanvas exampleRef 0.5 0.5)\<rparr>"
    by simp
  ultimately show ?thesis
    using imageToCanvas_center_within [of double "1 / 2 ^ 53" exampleOffGrid]
      imageToCanvas_center_within [of "\<lambda>t. t" 0 exampleRef] double_model
    by (simp add: imageToCanvas_rnd_exact)
qed

text \<open>
  C5 as stated fails in binary64: for the layer at (0.1, 0.2), 100.5 wide and 50.3
  high, of aspect ratio 0.5, \<open>imageToCanvas\<close> gives x = 50.349999999999994, which is
  neither the centre \<open>x + width / 2\<close> nor the number 50.35 that binary64 computes for it.
\<close>

theorem imageToCanvas_center_counterexample:
  "width exampleOffGrid > 0 \<and> height exampleOffGrid > 0 \<and> aspectRatio exampleOffGrid > 0 \<and>
   x_p (imageToCanvas_rnd double exampleOffGrid 0.5 0.5) = 1771533134672691 / 35184372088832 \<and>
   x_l exampleOffGrid + width exampleOffGrid / 2 = 1814049929904835789 / 36028797018963968 \<and>
   double (x_l exampleOffGrid + double (width exampleOffGrid / 2)) =
     7086132538690765 / 140737488355328"
  using imageToCanvas_exampleOffGrid center_exampleOffGrid
  by (simp add: exampleOffGrid_fields)


section \<open>History manager: undo\<close>

lemma run_Nil [simp]: "run [] s = s"
  by (simp add: run_def)

lemma run_Cons [simp]: "run (e # events) s = run events (handleEvent e s)"
  by (simp add: run_def)

lemma run_append [simp]: "run (es @ es') s = run es' (run es s)"
  by (simp add: run_def)

lemma gesture_setGuide [simp]:
  "pendingUndoState (setGuide g x y s) = pendingUndoState s"
  "isDragging (setGuide g x y s) = isDragging s"
  "isResizing (setGuide g x y s) = isResizing s"
  by (cases g; simp add: setGuide_def)+

lemma gesture_handleMouseMove [simp]:
  "pendingUndoState (handleMouseMove cx cy canvas s) = pendingUndoState s"
  "isDragging (handleMouseMove cx cy canvas s) = isDragging s"
  "isResizing (handleMouseMove cx cy canvas s) = isResizing s"
  by (simp_all add: handleMouseMove_def Let_def split: option.splits)

lemma run_mouseMoves [simp]:
  "history (run (mouseMoves moves) s) = history s"
  "pendingUndoState (run (mouseMoves moves) s) = pendingUndoState s"
  "isDragging (run (mouseMoves moves) s) = isDragging s"
  "isResizing (run (mouseMoves moves) s) = isResizing s"
  by (induction moves arbitrary: s; simp add: mouseMoves_def split: prod.splits)+

lemma undo_handleMouseUp:
  assumes "pendingUndoState s = Some pending" and "isDragging s \<or> isResizing s"
  shows "layers (undo (handleMouseUp s)) = pending"
  using assms by (cases "history s") (auto simp add: handleMouseUp_def undo_def Let_def MAX_HISTORY_def)

lemma undo_gesture:
  assumes "pendingUndoState s1 = Some pending" and "isDragging s1 \<or> isResizing s1"
  shows "layers (undo (run (mouseMoves moves @ [MouseUp]) s1)) = pending"
  using assms by (simp add: undo_handleMouseUp)

lemma layers_exampleLoaded:
  "layers exampleLoaded =
     [\<lparr>id_l = ''0-0-a.png'', src = ''blob:a'', x_l = 100, y_l = 100, width = 400, height = 200,
       aspectRatio = 2, visible = True, refs = None\<rparr>]"
  by (simp add: exampleLoaded_def exampleFile_def addImages_def imageOnLoad_def initialState_def
        ACCEPTED_TYPES_def pushHistory_eq Let_def)

lemma history_exampleLoaded: "history exampleLoaded = [[]]"
  by (simp add: exampleLoaded_def exampleFile_def addImages_def imageOnLoad_def initialState_def
        ACCEPTED_TYPES_def pushHistory_eq MAX_HISTORY_def Let_def)

lemma flags_exampleLoaded:
  "draggingGuide exampleLoaded = None" "alignModalOpen exampleLoaded = False"
  by (simp_all add: exampleLoaded_def exampleFile_def addImages_def imageOnLoad_def
        initialState_def ACCEPTED_TYPES_def pushHistory_eq Let_def)

lemma exampleWizard_eq:
  "exampleWizard = exampleLoaded\<lparr>alignWarning := None, alignModalOpen := True,
                                 alignModalLayerIndex := 0, alignModalStep := 0\<rparr>"
  by (simp add: exampleWizard_def handleAutoAlignClick_def layers_exampleLoaded)

lemma history_handleAlignModalCanvasClick [simp]:
  "history (handleAlignModalCanvasClick cx cy rect s) = history s"
  by (simp add: handleAlignModalCanvasClick_def Let_def)

text \<open>
  C3, as the code has it. For every mutation that the code checkpoints (adding images,
  moving a layer up or down, reordering by drop, toggling visibility, removing the
  selected layer, the alignment batch, and a completed drag or resize gesture with any
  number of pointer moves), the mutation followed by \<open>undo\<close> leaves the layer sequence
  equal to the one before the mutation, refs and visibility included. The wizard's
  writes to \<open>refs\<close> take no checkpoint and are not among them.
\<close>

theorem undo_inverts_checkpointed:
  assumes "checkpoints m s"
  shows "layers (undo (perform m s)) = layers s"
proof (cases m)
  case (Add now files)
  with assms show ?thesis
    by (simp add: perform_def addImages_def Let_def undo_after_push)
next
  case (Move index direction)
  with assms show ?thesis
    by (simp add: perform_def handleMoveLayer_def Let_def undo_after_push)
next
  case (Reorder layerId targetIndex)
  with assms show ?thesis
    by (auto simp add: perform_def handleLayerDrop_def handleLayerReorder_def Let_def
          undo_after_push split: option.splits)
next
  case (Toggle layerId)
  then show ?thesis
    by (simp add: perform_def handleToggleLayerVisibility_def Let_def undo_after_push)
next
  case Remove
  with assms show ?thesis
    by (simp add: perform_def handleRemoveLayer_def Let_def undo_after_push)
next
  case AlignBatch
  with assms have "history (perform m s) = history (pushHistory (s\<lparr>alignWarning := None\<rparr>))"
    by (simp add: perform_def history_runAutoAlign)
  then show ?thesis
    using undo_after_push [of "perform m s" "s\<lparr>alignWarning := None\<rparr>"] by simp
next
  case (DragGesture cx cy layerId moves)
  with assms obtain layer where f: "find (\<lambda>l. id_l l = layerId) (layers s) = Some layer"
    and o: "\<not> alignModalOpen s" by auto
  let ?s1 = "handleLayerMouseDown False cx cy layerId s"
  have "pendingUndoState ?s1 = Some (layers s)" and "isDragging ?s1"
    using f o by (simp_all add: handleLayerMouseDown_def Let_def)
  then have "layers (undo (run (mouseMoves moves @ [MouseUp]) ?s1)) = layers s"
    using undo_gesture by blast
  with DragGesture show ?thesis by (simp add: perform_def)
next
  case (ResizeGesture cx cy layerId h moves)
  with assms obtain layer where f: "find (\<lambda>l. id_l l = layerId) (layers s) = Some layer"
    by auto
  let ?s1 = "handleResizeMouseDown cx cy layerId h s"
  have "pendingUndoState ?s1 = Some (layers s)" and "isResizing ?s1"
    using f by (simp_all add: handleResizeMouseDown_def Let_def)
  then have "layers (undo (run (mouseMoves moves @ [MouseUp]) ?s1)) = layers s"
    using undo_gesture by blast
  with ResizeGesture show ?thesis by (simp add: perform_def)
qed


theorem undo_inverts_checkpointed_witness:
  "checkpoints (DragGesture 150 150 ''0-0-a.png'' [(160, 170, None), (200, 90, None)]) exampleLoaded \<and>
   layers (undo (perform (DragGesture 150 150 ''0-0-a.png'' [(160, 170, None), (200, 90, None)])
                         exampleLoaded)) = layers exampleLoaded \<and>
   checkpoints (ResizeGesture 500 300 ''0-0-a.png'' ''se'' [(150, 460, None)]) exampleLoaded \<and>
   layers (undo (perform (ResizeGesture 500 300 ''0-0-a.png'' ''se'' [(150, 460, None)])
                         exampleLoaded)) = layers exampleLoaded \<and>
   checkpoints (Toggle ''0-0-a.png'') exampleLoaded \<and>
   layers (undo (perform (Toggle ''0-0-a.png'') exampleLoaded)) = layers exampleLoaded \<and>
   checkpoints AlignBatch exampleThree \<and>
   layers (undo (perform AlignBatch exampleThree)) = layers exampleThree"
  using undo_inverts_checkpointed
    [of "DragGesture 150 150 ''0-0-a.png'' [(160, 170, None), (200, 90, None)]" exampleLoaded]
    undo_inverts_checkpointed
    [of "ResizeGesture 500 300 ''0-0-a.png'' ''se'' [(150, 460, None)]" exampleLoaded]
    undo_inverts_checkpointed [of "Toggle ''0-0-a.png''" exampleLoaded]
    undo_inverts_checkpointed [of AlignBatch exampleThree]
  by (simp add: layers_exampleLoaded flags_exampleLoaded exampleThree_def initialState_def)

text \<open>
  C3 as stated counts setting the refs among the checkpointed mutations. A wizard click
  sets refs without a checkpoint: on the example the following \<open>undo\<close> pops the
  snapshot taken before the image was added and leaves no layer at all.
\<close>

theorem undo_refs_set_counterexample:
  "layers (undo (handleAlignModalCanvasClick 50 20 exampleRect exampleWizard)) \<noteq>
   layers exampleWizard"
  by (simp add: undo_def exampleWizard_eq history_exampleLoaded layers_exampleLoaded)

section \<open>Alignment solver\<close>

lemma layers_runAutoAlign:
  "\<not> length (layers s) < 2 \<Longrightarrow>
   layers (runAutoAlign s) =
     map (\<lambda>(idx, layer). fst (alignLayer (layers s ! 0) idx layer)) (enumerate 0 (layers s))"
  by (simp add: runAutoAlign_def Let_def split_def)

lemma length_layers_runAutoAlign [simp]:
  "length (layers (runAutoAlign s)) = length (layers s)"
  by (cases "length (layers s) < 2") (simp_all add: layers_runAutoAlign, simp add: runAutoAlign_def)

lemma nth_layers_runAutoAlign:
  "\<not> length (layers s) < 2 \<Longrightarrow> i < length (layers s) \<Longrightarrow>
   layers (runAutoAlign s) ! i = fst (alignLayer (layers s ! 0) i (layers s ! i))"
  by (simp add: layers_runAutoAlign nth_enumerate_eq)

lemma alignLayer_frame:
  "id_l (fst (alignLayer r i l)) = id_l l"
  "src (fst (alignLayer r i l)) = src l"
  "aspectRatio (fst (alignLayer r i l)) = aspectRatio l"
  "visible (fst (alignLayer r i l)) = visible l"
  "refs (fst (alignLayer r i l)) = refs l"
  by (simp_all add: alignLayer_def Let_def)


lemma layers_exampleThree [simp]:
  "layers exampleThree = [exampleRef, exampleMarked, exampleDegenerate]"
  by (simp add: exampleThree_def initialState_def)

lemma example_spans:
  "dxEye exampleMarked = 0.4" "dyFaceBody exampleMarked = 0.4"
  "eyeCenterFrac exampleMarked = 0.5" "bodyFaceMidFrac exampleMarked = 0.4"
  "dxEye exampleDegenerate = 0.005"
  by (simp_all add: dxEye_def dyFaceBody_def eyeCenterFrac_def bodyFaceMidFrac_def
        refsOrDefault_def exampleMarked_def exampleDegenerate_def)

lemma example_reference:
  "refEyeCenterX exampleRef = 300" "refBodyFaceMidY exampleRef = 190"
  by (simp_all add: refEyeCenterX_def refBodyFaceMidY_def refEyeLeft_def refEyeRight_def
        refBodyTop_def refFaceBottom_def imageToCanvas_def refsOrDefault_def defaultRefs_def
        exampleRef_def Let_def)

lemma alignLayer_solved:
  assumes "i \<noteq> 0" and "\<not> \<bar>dxEye l\<bar> < 0.01" and "\<not> \<bar>dyFaceBody l\<bar> < 0.01"
  shows "x_p (imageToCanvas (fst (alignLayer r i l)) (eyeCenterFrac l) v) = refEyeCenterX r"
    and "y_p (imageToCanvas (fst (alignLayer r i l)) u (bodyFaceMidFrac l)) = refBodyFaceMidY r"
  using assms by (simp_all add: alignLayer_def imageToCanvas_def Let_def)

lemma runAutoAlign_exampleThree:
  "layers (runAutoAlign exampleThree) =
     [exampleRef,
      exampleMarked\<lparr>x_l := 150, y_l := 70, width := 300, height := 300\<rparr>,
      exampleDegenerate]"
  by (simp add: layers_runAutoAlign enumerate_eq_zip upt_rec
        alignLayer_def Let_def refEyeCenterX_def refBodyFaceMidY_def refEyeLeft_def
        refEyeRight_def refEyeSpanX_def refBodyFaceSpanY_def refBodySpanY_def refBodyBottom_def
        refBodyTop_def refFaceBottom_def imageToCanvas_def refsOrDefault_def defaultRefs_def
        exampleRef_def exampleMarked_def exampleDegenerate_def eyeCenterFrac_def
        bodyFaceMidFrac_def dxEye_def dyFaceBody_def dyBody_def)

text \<open>
  In exact arithmetic the solved layer has its landmarks on those of the reference.
\<close>

lemma runAutoAlign_lands_exact:
  assumes "0 < i" and "i < length (layers s)"
    and "\<not> \<bar>dxEye (layers s ! i)\<bar> < 0.01" and "\<not> \<bar>dyFaceBody (layers s ! i)\<bar> < 0.01"
  shows "x_p (imageToCanvas (layers (runAutoAlign s) ! i) (eyeCenterFrac (layers s ! i)) v) =
           refEyeCenterX (layers s ! 0) \<and>
         y_p (imageToCanvas (layers (runAutoAlign s) ! i) u (bodyFaceMidFrac (layers s ! i))) =
           refBodyFaceMidY (layers s ! 0)"
proof -
  from assms have "\<not> length (layers s) < 2" by simp
  then show ?thesis
    using assms by (simp add: nth_layers_runAutoAlign alignLayer_solved)
qed

text \<open>
  The rounded solver with the identity for rounding is the exact one.
\<close>

lemma layers_runAutoAlign_rnd:
  "\<not> length (layers s) < 2 \<Longrightarrow>
   layers (runAutoAlign_rnd rnd s) =
     map (\<lambda>(idx, layer). alignLayer_rnd rnd (layers s ! 0) idx layer) (enumerate 0 (layers s))"
  by (simp add: runAutoAlign_rnd_def Let_def pushHistory_eq)

lemma nth_layers_runAutoAlign_rnd:
  "\<not> length (layers s) < 2 \<Longrightarrow> i < length (layers s) \<Longrightarrow>
   layers (runAutoAlign_rnd rnd s) ! i = alignLayer_rnd rnd (layers s ! 0) i (layers s ! i)"
  by (simp add: layers_runAutoAlign_rnd nth_enumerate_eq)

lemma refsOrDefault_rnd_exact: "refsOrDefault_rnd (\<lambda>t. t) layer = refsOrDefault layer"
  by (simp add: refsOrDefault_rnd_def refsOrDefault_def defaultRefs_rnd_def defaultRefs_def
        split: option.splits)

lemma solver_rnd_exact:
  "dxEye_rnd (\<lambda>t. t) layer = dxEye layer"
  "dyFaceBody_rnd (\<lambda>t. t) layer = dyFaceBody layer"
  "eyeCenterFrac_rnd (\<lambda>t. t) layer = eyeCenterFrac layer"
  "bodyFaceMidFrac_rnd (\<lambda>t. t) layer = bodyFaceMidFrac layer"
  "refEyeSpanX_rnd (\<lambda>t. t) refLayer = refEyeSpanX refLayer"
  "refBodyFaceSpanY_rnd (\<lambda>t. t) refLayer = refBodyFaceSpanY refLayer"
  "refEyeCenterX_rnd (\<lambda>t. t) refLayer = refEyeCenterX refLayer"
  "refBodyFaceMidY_rnd (\<lambda>t. t) refLayer = refBodyFaceMidY refLayer"
  by (simp_all add: imageToCanvas_rnd_exact
        refsOrDefault_rnd_exact dxEye_rnd_def dxEye_def dyFaceBody_rnd_def dyFaceBody_def
        eyeCenterFrac_rnd_def eyeCenterFrac_def bodyFaceMidFrac_rnd_def bodyFaceMidFrac_def
        refEyeSpanX_rnd_def refEyeSpanX_def refBodyFaceSpanY_rnd_def refBodyFaceSpanY_def
        refEyeCenterX_rnd_def refEyeCenterX_def refBodyFaceMidY_rnd_def refBodyFaceMidY_def
        refEyeLeft_def refEyeRight_def refBodyTop_def refFaceBottom_def Let_def)

lemma alignLayer_rnd_exact:
  "alignLayer_rnd (\<lambda>t. t) refLayer idx layer = fst (alignLayer refLayer idx layer)"
  by (simp add: alignLayer_rnd_def alignLayer_def Let_def solver_rnd_exact
        newWidth_rnd_def newHeight_rnd_def)

lemma runAutoAlign_rnd_exact: "runAutoAlign_rnd (\<lambda>t. t) s = runAutoAlign s"
  by (simp add: runAutoAlign_rnd_def runAutoAlign_def Let_def alignLayer_rnd_exact case_prod_unfold)

text \<open>
  The rounded solver undoes the mapper up to the roundings of both: the position that
  \<open>alignLayer_rnd\<close> solves for, put back through \<open>imageToCanvas_rnd\<close>, is the reference's
  up to at most seven roundings.
\<close>

lemma alignLayer_rnd_wide:
  assumes "idx \<noteq> 0" and "\<not> \<bar>dxEye_rnd rnd layer\<bar> < rnd 0.01"
    and "\<not> \<bar>dyFaceBody_rnd rnd layer\<bar> < rnd 0.01"
    and "rnd (newWidth_rnd rnd r layer / newHeight_rnd rnd r layer) > aspectRatio layer"
  shows "alignLayer_rnd rnd r idx layer =
           layer\<lparr>x_l := rnd (rnd (refEyeCenterX_rnd rnd r -
                                  rnd (rnd (newWidth_rnd rnd r layer -
                                            rnd (newHeight_rnd rnd r layer * aspectRatio layer)) / 2)) -
                             rnd (eyeCenterFrac_rnd rnd layer *
                                  rnd (newHeight_rnd rnd r layer * aspectRatio layer))),
                 y_l := rnd (refBodyFaceMidY_rnd rnd r -
                             rnd (bodyFaceMidFrac_rnd rnd layer * newHeight_rnd rnd r layer)),
                 width := newWidth_rnd rnd r layer, height := newHeight_rnd rnd r layer\<rparr>"
  using assms by (simp add: alignLayer_rnd_def Let_def)

lemma alignLayer_rnd_tall:
  assumes "idx \<noteq> 0" and "\<not> \<bar>dxEye_rnd rnd layer\<bar> < rnd 0.01"
    and "\<not> \<bar>dyFaceBody_rnd rnd layer\<bar> < rnd 0.01"
    and "\<not> rnd (newWidth_rnd rnd r layer / newHeight_rnd rnd r layer) > aspectRatio layer"
  shows "alignLayer_rnd rnd r idx layer =
           layer\<lparr>x_l := rnd (refEyeCenterX_rnd rnd r -
                             rnd (eyeCenterFrac_rnd rnd layer * newWidth_rnd rnd r layer)),
                 y_l := rnd (rnd (refBodyFaceMidY_rnd rnd r -
                                  rnd (rnd (newHeight_rnd rnd r layer -
                                            rnd (newWidth_rnd rnd r layer / aspectRatio layer)) / 2)) -
                             rnd (bodyFaceMidFrac_rnd rnd layer *
                                  rnd (newWidth_rnd rnd r layer / aspectRatio layer))),
                 width := newWidth_rnd rnd r layer, height := newHeight_rnd rnd r layer\<rparr>"
  using assms by (simp add: alignLayer_rnd_def Let_def)

lemma alignLayer_rnd_size:
  assumes "idx \<noteq> 0" and "\<not> \<bar>dxEye_rnd rnd layer\<bar> < rnd 0.01"
    and "\<not> \<bar>dyFaceBody_rnd rnd layer\<bar> < rnd 0.01"
  shows "width (alignLayer_rnd rnd r idx layer) = newWidth_rnd rnd r layer"
    and "height (alignLayer_rnd rnd r idx layer) = newHeight_rnd rnd r layer"
    and "aspectRatio (alignLayer_rnd rnd r idx layer) = aspectRatio layer"
  using assms by (simp_all add: alignLayer_rnd_def Let_def)

lemma alignLayer_rnd_lands_x:
  assumes std: "\<forall>t. \<bar>rnd t - t\<bar> \<le> \<epsilon> * \<bar>t\<bar>"
    and idx: "idx \<noteq> 0" and dx: "\<not> \<bar>dxEye_rnd rnd layer\<bar> < rnd 0.01"
    and dy: "\<not> \<bar>dyFaceBody_rnd rnd layer\<bar> < rnd 0.01"
  shows "\<bar>x_p (imageToCanvas_rnd rnd (alignLayer_rnd rnd r idx layer) (eyeCenterFrac_rnd rnd layer) v) -
            refEyeCenterX_rnd rnd r\<bar>
           \<le> ((1 + \<epsilon>) ^ 7 - 1) *
              (\<bar>refEyeCenterX_rnd rnd r\<bar> +
               (1 + 2 * \<bar>eyeCenterFrac_rnd rnd layer\<bar>) *
               (\<bar>newWidth_rnd rnd r layer\<bar> + \<bar>newHeight_rnd rnd r layer * aspectRatio layer\<bar>))"
proof -
  let ?W = "newWidth_rnd rnd r layer"
  let ?H = "newHeight_rnd rnd r layer"
  let ?R = "aspectRatio layer"
  let ?C = "refEyeCenterX_rnd rnd r"
  let ?f = "eyeCenterFrac_rnd rnd layer"
  let ?L = "alignLayer_rnd rnd r idx layer"
  have e0: "0 \<le> \<epsilon>" using std by (rule eps_nonneg)
  show ?thesis
  proof (cases "rnd (?W / ?H) > ?R")
    case True
    have branch: "rnd (width ?L / height ?L) > aspectRatio ?L"
      using True by (simp add: alignLayer_rnd_size [OF idx dx dy])
    have "x_p (imageToCanvas_rnd rnd ?L ?f v) =
            rnd (rnd (rnd (rnd (?C - rnd (rnd (?W - rnd (?H * ?R)) / 2)) - rnd (?f * rnd (?H * ?R))) +
                      rnd (rnd (?W - rnd (?H * ?R)) / 2)) +
                 rnd (?f * rnd (?H * ?R)))"
      unfolding imageToCanvas_rnd_wide [where rnd = rnd and layer = ?L, OF branch]
      by (simp add: alignLayer_rnd_wide [OF idx dx dy True])
    then have "\<bar>x_p (imageToCanvas_rnd rnd ?L ?f v) - ?C\<bar>
            \<le> ((1 + \<epsilon>) ^ 4 - 1) *
               (\<bar>?C\<bar> + 2 * \<bar>rnd (rnd (?W - rnd (?H * ?R)) / 2)\<bar> + 2 * \<bar>rnd (?f * rnd (?H * ?R))\<bar>)"
      using there_and_back_inset [OF std, of ?C "rnd (rnd (?W - rnd (?H * ?R)) / 2)"
          "rnd (?f * rnd (?H * ?R))"] by (simp only:)
    also have "\<dots> \<le> ((1 + \<epsilon>) ^ 7 - 1) * (\<bar>?C\<bar> + (1 + 2 * \<bar>?f\<bar>) * (\<bar>?W\<bar> + \<bar>?H * ?R\<bar>))"
      by (rule widen [OF e0 _ _ magnitude_inset [OF std]]) simp_all
    finally show ?thesis .
  next
    case False
    have branch: "\<not> rnd (width ?L / height ?L) > aspectRatio ?L"
      using False by (simp add: alignLayer_rnd_size [OF idx dx dy])
    have "x_p (imageToCanvas_rnd rnd ?L ?f v) = rnd (rnd (?C - rnd (?f * ?W)) + rnd (?f * ?W))"
      unfolding imageToCanvas_rnd_tall [where rnd = rnd and layer = ?L, OF branch]
      by (simp add: alignLayer_rnd_tall [OF idx dx dy False])
    then have "\<bar>x_p (imageToCanvas_rnd rnd ?L ?f v) - ?C\<bar>
            \<le> ((1 + \<epsilon>) ^ 2 - 1) * (\<bar>?C\<bar> + 2 * \<bar>rnd (?f * ?W)\<bar>)"
      using there_and_back [OF std, of ?C "rnd (?f * ?W)"] by (simp only:)
    also have "\<dots> \<le> ((1 + \<epsilon>) ^ 7 - 1) * (\<bar>?C\<bar> + (1 + 2 * \<bar>?f\<bar>) * (\<bar>?W\<bar> + \<bar>?H * ?R\<bar>))"
      by (rule widen [OF e0 _ _ magnitude_plain [OF std]]) simp_all
    finally show ?thesis .
  qed
qed

lemma alignLayer_rnd_lands_y:
  assumes std: "\<forall>t. \<bar>rnd t - t\<bar> \<le> \<epsilon> * \<bar>t\<bar>"
    and idx: "idx \<noteq> 0" and dx: "\<not> \<bar>dxEye_rnd rnd layer\<bar> < rnd 0.01"
    and dy: "\<not> \<bar>dyFaceBody_rnd rnd layer\<bar> < rnd 0.01"
  shows "\<bar>y_p (imageToCanvas_rnd rnd (alignLayer_rnd rnd r idx layer) u (bodyFaceMidFrac_rnd rnd layer)) -
            refBodyFaceMidY_rnd rnd r\<bar>
           \<le> ((1 + \<epsilon>) ^ 7 - 1) *
              (\<bar>refBodyFaceMidY_rnd rnd r\<bar> +
               (1 + 2 * \<bar>bodyFaceMidFrac_rnd rnd layer\<bar>) *
               (\<bar>newHeight_rnd rnd r layer\<bar> + \<bar>newWidth_rnd rnd r layer / aspectRatio layer\<bar>))"
proof -
  let ?W = "newWidth_rnd rnd r layer"
  let ?H = "newHeight_rnd rnd r layer"
  let ?R = "aspectRatio layer"
  let ?M = "refBodyFaceMidY_rnd rnd r"
  let ?g = "bodyFaceMidFrac_rnd rnd layer"
  let ?L = "alignLayer_rnd rnd r idx layer"
  have e0: "0 \<le> \<epsilon>" using std by (rule eps_nonneg)
  show ?thesis
  proof (cases "rnd (?W / ?H) > ?R")
    case True
    have branch: "rnd (width ?L / height ?L) > aspectRatio ?L"
      using True by (simp add: alignLayer_rnd_size [OF idx dx dy])
    have "y_p (imageToCanvas_rnd rnd ?L u ?g) = rnd (rnd (?M - rnd (?g * ?H)) + rnd (?g * ?H))"
      unfolding imageToCanvas_rnd_wide [where rnd = rnd and layer = ?L, OF branch]
      by (simp add: alignLayer_rnd_wide [OF idx dx dy True])
    then have "\<bar>y_p (imageToCanvas_rnd rnd ?L u ?g) - ?M\<bar>
            \<le> ((1 + \<epsilon>) ^ 2 - 1) * (\<bar>?M\<bar> + 2 * \<bar>rnd (?g * ?H)\<bar>)"
      using there_and_back [OF std, of ?M "rnd (?g * ?H)"] by (simp only:)
    also have "\<dots> \<le> ((1 + \<epsilon>) ^ 7 - 1) * (\<bar>?M\<bar> + (1 + 2 * \<bar>?g\<bar>) * (\<bar>?H\<bar> + \<bar>?W / ?R\<bar>))"
      by (rule widen [OF e0 _ _ magnitude_plain [OF std]]) simp_all
    finally show ?thesis .
  next
    case False
    have branch: "\<not> rnd (width ?L / height ?L) > aspectRatio ?L"
      using False by (simp add: alignLayer_rnd_size [OF idx dx dy])
    have "y_p (imageToCanvas_rnd rnd ?L u ?g) =
            rnd (rnd (rnd (rnd (?M - rnd (rnd (?H - rnd (?W / ?R)) / 2)) - rnd (?g * rnd (?W / ?R))) +
                      rnd (rnd (?H - rnd (?W / ?R)) / 2)) +
                 rnd (?g * rnd (?W / ?R)))"
      unfolding imageToCanvas_rnd_tall [where rnd = rnd and layer = ?L, OF branch]
      by (simp add: alignLayer_rnd_tall [OF idx dx dy False])
    then have "\<bar>y_p (imageToCanvas_rnd rnd ?L u ?g) - ?M\<bar>
            \<le> ((1 + \<epsilon>) ^ 4 - 1) *
               (\<bar>?M\<bar> + 2 * \<bar>rnd (rnd (?H - rnd (?W / ?R)) / 2)\<bar> + 2 * \<bar>rnd (?g * rnd (?W / ?R))\<bar>)"
      using there_and_back_inset [OF std, of ?M "rnd (rnd (?H - rnd (?W / ?R)) / 2)"
          "rnd (?g * rnd (?W / ?R))"] by (simp only:)
    also have "\<dots> \<le> ((1 + \<epsilon>) ^ 7 - 1) * (\<bar>?M\<bar> + (1 + 2 * \<bar>?g\<bar>) * (\<bar>?H\<bar> + \<bar>?W / ?R\<bar>))"
      by (rule widen [OF e0 _ _ magnitude_inset [OF std]]) simp_all
    finally show ?thesis .
  qed
qed

lemma exampleRef_double:
  "refEyeSpanX_rnd double exampleRef = 120"
  "refBodyFaceSpanY_rnd double exampleRef = 120"
  "refEyeCenterX_rnd double exampleRef = 300"
  "refBodyFaceMidY_rnd double exampleRef = 190"
  by (simp_all add: refEyeSpanX_rnd_def refBodyFaceSpanY_rnd_def refEyeCenterX_rnd_def
        refBodyFaceMidY_rnd_def refsOrDefault_rnd_def defaultRefs_rnd_def double_table
        exampleRef_def imageToCanvas_rnd_def Let_def)

lemma exampleNarrow_double:
  "dxEye_rnd double exampleNarrow = 900719925474099 / 18014398509481984"
  "dyFaceBody_rnd double exampleNarrow = 5404319552844595 / 18014398509481984"
  "eyeCenterFrac_rnd double exampleNarrow = 1914029841632461 / 4503599627370496"
  "bodyFaceMidFrac_rnd double exampleNarrow = 3152519739159347 / 9007199254740992"
  by (simp_all add: dxEye_rnd_def dyFaceBody_rnd_def eyeCenterFrac_rnd_def bodyFaceMidFrac_rnd_def
        refsOrDefault_rnd_def exampleNarrow_def double_table)

lemma aspectRatio_exampleNarrow [simp]: "aspectRatio exampleNarrow = 2"
  by (simp add: exampleNarrow_def)

lemma alignLayer_exampleNarrow:
  "alignLayer_rnd double exampleRef 1 exampleNarrow =
     exampleNarrow\<lparr>x_l := - (3694359069327361 / 4398046511104), y_l := 50,
                    width := 5277655813324801 / 2199023255552, height := 400\<rparr>"
  by (simp add: alignLayer_rnd_def newWidth_rnd_def newHeight_rnd_def exampleRef_double
        exampleNarrow_double double_table Let_def)

lemma layers_exampleTwo [simp]: "layers exampleTwo = [exampleRef, exampleNarrow]"
  by (simp add: exampleTwo_def)

lemma runAutoAlign_exampleTwo:
  "layers (runAutoAlign_rnd double exampleTwo) =
     [exampleRef,
      exampleNarrow\<lparr>x_l := - (3694359069327361 / 4398046511104), y_l := 50,
                     width := 5277655813324801 / 2199023255552, height := 400\<rparr>]"
  using alignLayer_exampleNarrow
  by (simp add: layers_runAutoAlign_rnd enumerate_eq_zip upt_rec alignLayer_rnd_def)

lemma lands_exampleTwo:
  "x_p (imageToCanvas_rnd double (layers (runAutoAlign_rnd double exampleTwo) ! 1)
          (eyeCenterFrac_rnd double exampleNarrow) (double 0.45)) = 300 + 1 / 2 ^ 44"
  "y_p (imageToCanvas_rnd double (layers (runAutoAlign_rnd double exampleTwo) ! 1)
          0.5 (bodyFaceMidFrac_rnd double exampleNarrow)) = 190"
  by (simp_all add: runAutoAlign_exampleTwo exampleNarrow_double
        imageToCanvas_rnd_def double_table Let_def)

text \<open>
  C1, as the code has it. After \<open>runAutoAlign\<close>, every layer other than the reference
  that was not skipped as degenerate has its own eye centre on the reference's up to
  the rounding of the arithmetic: when every operation is rounded with a relative
  error of at most \<open>\<epsilon>\<close>, \<open>imageToCanvas\<close> of the updated layer at \<open>eyeCenterFrac\<close> (on any
  image row \<open>v\<close>) has an x-coordinate within
  \<open>((1 + \<epsilon>) ^ 7 - 1) * (\<bar>refEyeCenterX\<bar> + (1 + 2 * \<bar>eyeCenterFrac\<bar>) * (\<bar>width\<bar> + \<bar>height * aspectRatio\<bar>))\<close>
  of \<open>refEyeCenterX\<close> of the reference layer, and at \<open>bodyFaceMidFrac\<close> (on any image
  column \<open>u\<close>, 0.5 among them) a y-coordinate within
  \<open>((1 + \<epsilon>) ^ 7 - 1) * (\<bar>refBodyFaceMidY\<bar> + (1 + 2 * \<bar>bodyFaceMidFrac\<bar>) * (\<bar>height\<bar> + \<bar>width / aspectRatio\<bar>))\<close>
  of \<open>refBodyFaceMidY\<close>, width and height being those of the updated layer. Both
  fractions are those of the layer's own refs, defaulted when it has none. Binary64
  has \<open>\<epsilon> = 2 ^ - 53\<close>; exact arithmetic has \<open>\<epsilon> = 0\<close>, and there the landmarks coincide.
  The divisors of the computation are taken away from zero: the reference layer has a
  positive height and aspect ratio, the layer a positive aspect ratio, and its solved
  height is not zero.
\<close>

theorem runAutoAlign_lands_within:
  assumes "\<forall>t. \<bar>rnd t - t\<bar> \<le> \<epsilon> * \<bar>t\<bar>"
    and "0 < i" and "i < length (layers s)"
    and "\<not> \<bar>dxEye_rnd rnd (layers s ! i)\<bar> < rnd 0.01"
    and "\<not> \<bar>dyFaceBody_rnd rnd (layers s ! i)\<bar> < rnd 0.01"
    and "0 < height (layers s ! 0)" and "0 < aspectRatio (layers s ! 0)"
    and "0 < aspectRatio (layers s ! i)"
    and "height (layers (runAutoAlign_rnd rnd s) ! i) \<noteq> 0"
  shows "\<bar>x_p (imageToCanvas_rnd rnd (layers (runAutoAlign_rnd rnd s) ! i)
                (eyeCenterFrac_rnd rnd (layers s ! i)) v) -
            refEyeCenterX_rnd rnd (layers s ! 0)\<bar>
           \<le> ((1 + \<epsilon>) ^ 7 - 1) *
              (\<bar>refEyeCenterX_rnd rnd (layers s ! 0)\<bar> +
               (1 + 2 * \<bar>eyeCenterFrac_rnd rnd (layers s ! i)\<bar>) *
               (\<bar>width (layers (runAutoAlign_rnd rnd s) ! i)\<bar> +
                \<bar>height (layers (runAutoAlign_rnd rnd s) ! i) *
                   aspectRatio (layers (runAutoAlign_rnd rnd s) ! i)\<bar>)) \<and>
         \<bar>y_p (imageToCanvas_rnd rnd (layers (runAutoAlign_rnd rnd s) ! i)
                u (bodyFaceMidFrac_rnd rnd (layers s ! i))) -
            refBodyFaceMidY_rnd rnd (layers s ! 0)\<bar>
           \<le> ((1 + \<epsilon>) ^ 7 - 1) *
              (\<bar>refBodyFaceMidY_rnd rnd (layers s ! 0)\<bar> +
               (1 + 2 * \<bar>bodyFaceMidFrac_rnd rnd (layers s ! i)\<bar>) *
               (\<bar>height (layers (runAutoAlign_rnd rnd s) ! i)\<bar> +
                \<bar>width (layers (runAutoAlign_rnd rnd s) ! i) /
                   aspectRatio (layers (runAutoAlign_rnd rnd s) ! i)\<bar>))"
proof -
  from assms(2,3) have two: "\<not> length (layers s) < 2" and idx: "i \<noteq> 0" by simp_all
  note nth = nth_layers_runAutoAlign_rnd [OF two assms(3)]
  note size = alignLayer_rnd_size [OF idx assms(4,5)]
  show ?thesis
    unfolding nth size
    using alignLayer_rnd_lands_x [OF assms(1) idx assms(4,5)]
      alignLayer_rnd_lands_y [OF assms(1) idx assms(4,5)]
    by (rule conjI)
qed

theorem runAutoAlign_lands_within_witness:
  "(\<forall>t. \<bar>double t - t\<bar> \<le> (1 / 2 ^ 53) * \<bar>t\<bar>) \<and>
   (0::nat) < 1 \<and> 1 < length (layers exampleTwo) \<and>
   \<not> \<bar>dxEye_rnd double (layers exampleTwo ! 1)\<bar> < double 0.01 \<and>
   \<not> \<bar>dyFaceBody_rnd double (layers exampleTwo ! 1)\<bar> < double 0.01 \<and>
   0 < height (layers exampleTwo ! 0) \<and> 0 < aspectRatio (layers exampleTwo ! 0) \<and>
   0 < aspectRatio (layers exampleTwo ! 1) \<and>
   height (layers (runAutoAlign_rnd double exampleTwo) ! 1) \<noteq> 0 \<and>
   \<bar>x_p (imageToCanvas_rnd double (layers (runAutoAlign_rnd double exampleTwo) ! 1)
          (eyeCenterFrac_rnd double exampleNarrow) (double 0.45)) - 300\<bar>
     \<le> ((1 + 1 / 2 ^ 53) ^ 7 - 1) * 6221 \<and>
   \<bar>y_p (imageToCanvas_rnd double (layers (runAutoAlign_rnd double exampleTwo) ! 1)
          0.5 (bodyFaceMidFrac_rnd double exampleNarrow)) - 190\<bar>
     \<le> ((1 + 1 / 2 ^ 53) ^ 7 - 1) * 2931 \<and>
   1 < length (layers exampleThree) \<and>
   \<not> \<bar>dxEye (layers exampleThree ! 1)\<bar> < 0.01 \<and>
   \<not> \<bar>dyFaceBody (layers exampleThree ! 1)\<bar> < 0.01 \<and>
   0 < height (layers exampleThree ! 0) \<and> 0 < aspectRatio (layers exampleThree ! 0) \<and>
   0 < aspectRatio (layers exampleThree ! 1) \<and>
   height (layers (runAutoAlign exampleThree) ! 1) \<noteq> 0 \<and>
   x_p (imageToCanvas (layers (runAutoAlign exampleThree) ! 1) (eyeCenterFrac exampleMarked) 0.4) = 300 \<and>
   y_p (imageToCanvas (layers (runAutoAlign exampleThree) ! 1) 0.5 (bodyFaceMidFrac exampleMarked)) = 190"
proof -
  have hyps: "\<not> \<bar>dxEye_rnd double (layers exampleTwo ! 1)\<bar> < double 0.01"
    "\<not> \<bar>dyFaceBody_rnd double (layers exampleTwo ! 1)\<bar> < double 0.01"
    by (simp_all add: exampleNarrow_double double_table)
  have pos: "0 < height (layers exampleTwo ! 0)" "0 < aspectRatio (layers exampleTwo ! 0)"
    "0 < aspectRatio (layers exampleTwo ! 1)"
    "height (layers (runAutoAlign_rnd double exampleTwo) ! 1) \<noteq> 0"
    by (simp_all add: runAutoAlign_exampleTwo exampleRef_def)
  have bounds:
    "\<bar>refEyeCenterX_rnd double (layers exampleTwo ! 0)\<bar> +
       (1 + 2 * \<bar>eyeCenterFrac_rnd double (layers exampleTwo ! 1)\<bar>) *
       (\<bar>width (layers (runAutoAlign_rnd double exampleTwo) ! 1)\<bar> +
        \<bar>height (layers (runAutoAlign_rnd double exampleTwo) ! 1) *
           aspectRatio (layers (runAutoAlign_rnd double exampleTwo) ! 1)\<bar>) \<le> 6221"
    "\<bar>refBodyFaceMidY_rnd double (layers exampleTwo ! 0)\<bar> +
       (1 + 2 * \<bar>bodyFaceMidFrac_rnd double (layers exampleTwo ! 1)\<bar>) *
       (\<bar>height (layers (runAutoAlign_rnd double exampleTwo) ! 1)\<bar> +
        \<bar>width (layers (runAutoAlign_rnd double exampleTwo) ! 1) /
           aspectRatio (layers (runAutoAlign_rnd double exampleTwo) ! 1)\<bar>) \<le> 2931"
    by (simp_all add: runAutoAlign_exampleTwo exampleRef_double exampleNarrow_double)
  have k: "0 \<le> (1 + 1 / 2 ^ 53) ^ 7 - (1::real)" by simp
  note fl = runAutoAlign_lands_within [of double "1 / 2 ^ 53" 1 exampleTwo "double 0.45" "0.5",
      OF double_model _ _ hyps pos]
  have x: "\<bar>x_p (imageToCanvas_rnd double (layers (runAutoAlign_rnd double exampleTwo) ! 1)
          (eyeCenterFrac_rnd double exampleNarrow) (double 0.45)) - 300\<bar>
     \<le> ((1 + 1 / 2 ^ 53) ^ 7 - 1) * 6221"
    using fl mult_left_mono [OF bounds(1) k] by (simp add: exampleRef_double)
  have y: "\<bar>y_p (imageToCanvas_rnd double (layers (runAutoAlign_rnd double exampleTwo) ! 1)
          0.5 (bodyFaceMidFrac_rnd double exampleNarrow)) - 190\<bar>
     \<le> ((1 + 1 / 2 ^ 53) ^ 7 - 1) * 2931"
    using fl mult_left_mono [OF bounds(2) k] by (simp add: exampleRef_double)
  have pos3: "0 < height (layers exampleThree ! 0) \<and> 0 < aspectRatio (layers exampleThree ! 0) \<and>
     0 < aspectRatio (layers exampleThree ! 1) \<and>
     height (layers (runAutoAlign exampleThree) ! 1) \<noteq> 0"
    by (simp add: runAutoAlign_exampleThree exampleRef_def exampleMarked_def)
  have exact:
    "\<not> \<bar>dxEye (layers exampleThree ! 1)\<bar> < 0.01 \<and>
     \<not> \<bar>dyFaceBody (layers exampleThree ! 1)\<bar> < 0.01 \<and>
     x_p (imageToCanvas (layers (runAutoAlign exampleThree) ! 1) (eyeCenterFrac exampleMarked) 0.4) = 300 \<and>
     y_p (imageToCanvas (layers (runAutoAlign exampleThree) ! 1) 0.5 (bodyFaceMidFrac exampleMarked)) = 190"
    using runAutoAlign_lands_within [of "\<lambda>t. t" 0 1 exampleThree "0.4" "0.5"] pos3
    by (simp add: solver_rnd_exact imageToCanvas_rnd_exact runAutoAlign_rnd_exact
          example_spans example_reference)
  show ?thesis using double_model hyps pos pos3 x y exact by simp
qed

text \<open>
  C1 as stated fails in binary64: next to \<open>exampleRef\<close>, whose eye centre is at
  x = 300, the layer with its eyes at 0.4 and 0.45 is solved to a geometry in which its
  own eye centre is at 300.00000000000006.
\<close>

theorem runAutoAlign_lands_counterexample:
  "(0::nat) < 1 \<and> 1 < length (layers exampleTwo) \<and>
   \<not> \<bar>dxEye_rnd double (layers exampleTwo ! 1)\<bar> < double 0.01 \<and>
   \<not> \<bar>dyFaceBody_rnd double (layers exampleTwo ! 1)\<bar> < double 0.01 \<and>
   refEyeCenterX_rnd double (layers exampleTwo ! 0) = 300 \<and>
   x_p (imageToCanvas_rnd double (layers (runAutoAlign_rnd double exampleTwo) ! 1)
          (eyeCenterFrac_rnd double (layers exampleTwo ! 1)) (double 0.45)) = 300 + 1 / 2 ^ 44"
  using lands_exampleTwo(1)
  by (simp add: exampleRef_double exampleNarrow_double double_table)




text \<open>
  C8. With fewer than two layers \<open>runAutoAlign\<close> returns the state it was given: the
  layers, the history and the warning are untouched.
\<close>

theorem runAutoAlign_noop:
  "length (layers s) < 2 \<Longrightarrow> runAutoAlign s = s"
  by (simp add: runAutoAlign_def)

theorem runAutoAlign_noop_witness:
  "length (layers exampleLoaded) < 2 \<and> runAutoAlign exampleLoaded = exampleLoaded"
  using runAutoAlign_noop [of exampleLoaded]
  by (simp add: layers_exampleLoaded)

text \<open>
  C10. \<open>runAutoAlign\<close> keeps the number and the order of the layers, and for each of
  them the id, the source, the aspect ratio, the visibility and the refs.
\<close>

theorem runAutoAlign_frame:
  "map (\<lambda>l. (id_l l, src l, aspectRatio l, visible l, refs l)) (layers (runAutoAlign s)) =
   map (\<lambda>l. (id_l l, src l, aspectRatio l, visible l, refs l)) (layers s)"
proof (cases "length (layers s) < 2")
  case True
  then show ?thesis by (simp add: runAutoAlign_def)
next
  case False
  show ?thesis
    by (rule nth_equalityI) (simp_all add: nth_layers_runAutoAlign [OF False] alignLayer_frame)
qed

theorem runAutoAlign_frame_witness:
  "map (\<lambda>l. (id_l l, src l, aspectRatio l, visible l, refs l)) (layers (runAutoAlign exampleThree)) =
   [(''ref'', ''blob:r'', 1, True, None),
    (''b'', ''blob:b'', 1, True, refs exampleMarked),
    (''c'', ''blob:c'', 2, False, refs exampleDegenerate)]"
  using runAutoAlign_frame [of exampleThree]
  by (simp add: exampleRef_def exampleMarked_def exampleDegenerate_def)

section \<open>Interaction state machine: resizing\<close>

lemma resizeLayer_keeps [simp]:
  "id_l (resizeLayer h st dx dy l) = id_l l"
  "aspectRatio (resizeLayer h st dx dy l) = aspectRatio l"
  by (simp_all add: resizeLayer_def Let_def)

lemma resizeLayer_again:
  "resizeLayer h st dx dy (resizeLayer h st dx' dy' l) = resizeLayer h st dx dy l"
  by (simp add: resizeLayer_def Let_def)

lemma resizing_move:
  assumes "resizing layerId h st s" and "layerId \<noteq> []" and "h \<noteq> []"
  shows "resizing layerId h st (handleMouseMove cx cy canvas s)"
    and "layers (handleMouseMove cx cy canvas s) =
           map (\<lambda>l. if id_l l = layerId
                     then resizeLayer h st (cx - mouseX st) (cy - mouseY st) l else l) (layers s)"
  using assms by (auto simp add: resizing_def handleMouseMove_def truthy_def Let_def)

lemma resizing_moves:
  assumes "resizing layerId h st s" and "layerId \<noteq> []" and "h \<noteq> []" and "moves \<noteq> []"
  shows "layers (run (mouseMoves moves) s) =
           map (\<lambda>l. if id_l l = layerId
                     then resizeLayer h st (fst (last moves) - mouseX st)
                            (fst (snd (last moves)) - mouseY st) l
                     else l) (layers s)"
  using assms
proof (induction moves arbitrary: s)
  case Nil
  then show ?case by simp
next
  case (Cons mv moves)
  obtain cx cy canvas where mv: "mv = (cx, cy, canvas)" by (cases mv) auto
  let ?s1 = "handleMouseMove cx cy canvas s"
  have r: "resizing layerId h st ?s1"
    and l: "layers ?s1 = map (\<lambda>l. if id_l l = layerId
                     then resizeLayer h st (cx - mouseX st) (cy - mouseY st) l else l) (layers s)"
    using resizing_move [OF Cons.prems(1-3)] by simp_all
  show ?case
  proof (cases "moves = []")
    case True
    then show ?thesis using l mv by (simp add: mouseMoves_def)
  next
    case False
    have "layers (run (mouseMoves moves) ?s1) =
           map (\<lambda>l. if id_l l = layerId
                     then resizeLayer h st (fst (last moves) - mouseX st)
                            (fst (snd (last moves)) - mouseY st) l
                     else l) (layers ?s1)"
      using Cons.IH [OF r Cons.prems(2,3) False] .
    then show ?thesis
      using False mv by (simp add: mouseMoves_def l comp_def resizeLayer_again cong: if_cong)
  qed
qed

lemma layers_handleMouseUp [simp]: "layers (handleMouseUp s) = layers s"
  by (simp add: handleMouseUp_def Let_def split: option.splits)

lemma layers_resize_gesture:
  assumes "find (\<lambda>l. id_l l = layerId) (layers s) = Some layer0"
    and "draggingGuide s = None" and "layerId \<noteq> []" and "h \<noteq> []" and "moves \<noteq> []"
  shows "layers (perform (ResizeGesture cx cy layerId h moves) s) =
           map (\<lambda>l. if id_l l = layerId
                     then resizeLayer h (startOf cx cy layer0) (fst (last moves) - cx)
                            (fst (snd (last moves)) - cy) l
                     else l) (layers s)"
proof -
  let ?s1 = "handleResizeMouseDown cx cy layerId h s"
  have "resizing layerId h (startOf cx cy layer0) ?s1" and "layers ?s1 = layers s"
    using assms(1,2) by (simp_all add: resizing_def handleResizeMouseDown_def startOf_def)
  then show ?thesis
    using resizing_moves [of layerId h "startOf cx cy layer0" ?s1 moves] assms(3-5)
    by (simp add: perform_def startOf_def)
qed


lemma resizeLayer_ew:
  "h \<in> {''e'', ''w''} \<Longrightarrow>
   width (resizeLayer h st dx dy l) \<ge> 50 \<and> height (resizeLayer h st dx dy l) = start_height st"
  by (auto simp add: resizeLayer_def includes_c_def Let_def)

lemma resizeLayer_ns:
  "h \<in> {''n'', ''s''} \<Longrightarrow>
   height (resizeLayer h st dx dy l) \<ge> 50 \<and> width (resizeLayer h st dx dy l) = start_width st"
  by (auto simp add: resizeLayer_def includes_c_def Let_def)

lemma resizeLayer_corner:
  "h \<in> {''nw'', ''ne'', ''sw'', ''se''} \<Longrightarrow>
   width (resizeLayer h st dx dy l) \<ge> 50 \<and>
   height (resizeLayer h st dx dy l) = width (resizeLayer h st dx dy l) / aspectRatio l \<and>
   width (resizeLayer h st dx dy l) / height (resizeLayer h st dx dy l) = aspectRatio l"
  by (auto simp add: resizeLayer_def includes_c_def Let_def)

lemma resized_layer:
  assumes "find (\<lambda>l. id_l l = layerId) (layers s) = Some layer0"
    and "draggingGuide s = None" and "layerId \<noteq> []" and "h \<noteq> []" and "moves \<noteq> []"
    and "l' \<in> set (layers (perform (ResizeGesture cx cy layerId h moves) s))"
    and "id_l l' = layerId"
  shows "\<exists>l dx dy. l' = resizeLayer h (startOf cx cy layer0) dx dy l"
proof -
  from assms(6) obtain l where "l \<in> set (layers s)"
    and l': "l' = (if id_l l = layerId
                  then resizeLayer h (startOf cx cy layer0) (fst (last moves) - cx)
                         (fst (snd (last moves)) - cy) l
                  else l)"
    unfolding layers_resize_gesture [OF assms(1-5)] by auto
  show ?thesis
  proof (cases "id_l l = layerId")
    case True
    with l' show ?thesis by auto
  next
    case False
    with l' assms(7) show ?thesis by simp
  qed
qed

lemma RESIZE_HANDLES_cases:
  "set RESIZE_HANDLES = {''e'', ''w''} \<union> {''n'', ''s''} \<union> {''nw'', ''ne'', ''sw'', ''se''}"
  by (auto simp add: RESIZE_HANDLES_def)

lemma find_exampleLoaded:
  "find (\<lambda>l. id_l l = ''0-0-a.png'') (layers exampleLoaded) = Some (hd (layers exampleLoaded))"
  by (simp add: layers_exampleLoaded)

lemma layers_exampleResize:
  assumes "h \<noteq> []"
  shows "layers (exampleResize h) =
           [resizeLayer h \<lparr>mouseX = 500, mouseY = 300, start_width = 400, start_height = 200,
                            start_x = 100, start_y = 100\<rparr> (- 350) 160 (hd (layers exampleLoaded))]"
proof -
  have "layers (exampleResize h) =
        map (\<lambda>l. if id_l l = ''0-0-a.png''
                  then resizeLayer h (startOf 500 300 (hd (layers exampleLoaded)))
                         (fst (last [(480, 310, None), (150::real, 460::real, None::Rect option)]) - 500)
                         (fst (snd (last [(480, 310, None), (150::real, 460::real, None::Rect option)])) - 300) l
                  else l) (layers exampleLoaded)"
    unfolding exampleResize_def
    by (rule layers_resize_gesture) (simp_all add: find_exampleLoaded flags_exampleLoaded assms)
  also have "\<dots> = [resizeLayer h \<lparr>mouseX = 500, mouseY = 300, start_width = 400,
        start_height = 200, start_x = 100, start_y = 100\<rparr> (- 350) 160 (hd (layers exampleLoaded))]"
    by (simp add: layers_exampleLoaded startOf_def)
  finally show ?thesis .
qed

lemma exampleResize_values:
  "layers (exampleResize ''se'') =
     [\<lparr>id_l = ''0-0-a.png'', src = ''blob:a'', x_l = 100, y_l = 100, width = 50, height = 25,
       aspectRatio = 2, visible = True, refs = None\<rparr>]"
  "layers (exampleResize ''e'') =
     [\<lparr>id_l = ''0-0-a.png'', src = ''blob:a'', x_l = 100, y_l = 100, width = 50, height = 200,
       aspectRatio = 2, visible = True, refs = None\<rparr>]"
  "layers (exampleResize ''n'') =
     [\<lparr>id_l = ''0-0-a.png'', src = ''blob:a'', x_l = 100, y_l = 250, width = 400, height = 50,
       aspectRatio = 2, visible = True, refs = None\<rparr>]"
  by (simp_all add: layers_exampleResize layers_exampleLoaded resizeLayer_def includes_c_def Let_def)

text \<open>
  C6, as the code has it. A resize gesture on a corner handle (a mouse-down on the handle of an existing
  layer while no guide is being dragged, at least one pointer move, and the mouse-up)
  leaves the resized layer with width / height equal to its aspect ratio, whatever the
  starting geometry and the pointer positions.
\<close>

theorem corner_resize_keeps_ratio:
  assumes "find (\<lambda>l. id_l l = layerId) (layers s) = Some layer0"
    and "draggingGuide s = None" and "layerId \<noteq> []" and "moves \<noteq> []"
    and "h \<in> {''nw'', ''ne'', ''sw'', ''se''}"
    and "l' \<in> set (layers (perform (ResizeGesture cx cy layerId h moves) s))"
    and "id_l l' = layerId"
  shows "width l' / height l' = aspectRatio l'"
proof -
  from assms(5) have "h \<noteq> []" by auto
  from resized_layer [OF assms(1-3) this assms(4,6,7)]
  obtain l dx dy where l': "l' = resizeLayer h (startOf cx cy layer0) dx dy l" by (elim exE)
  have "width (resizeLayer h (startOf cx cy layer0) dx dy l) /
        height (resizeLayer h (startOf cx cy layer0) dx dy l) = aspectRatio l"
    using resizeLayer_corner [OF assms(5)] by blast
  then show ?thesis unfolding l' by (simp only: resizeLayer_keeps)
qed

theorem corner_resize_keeps_ratio_witness:
  "find (\<lambda>l. id_l l = ''0-0-a.png'') (layers exampleLoaded) = Some (hd (layers exampleLoaded)) \<and>
   draggingGuide exampleLoaded = None \<and>
   hd (layers (exampleResize ''se'')) \<in> set (layers (exampleResize ''se'')) \<and>
   id_l (hd (layers (exampleResize ''se''))) = ''0-0-a.png'' \<and>
   aspectRatio (hd (layers (exampleResize ''se''))) = 2 \<and>
   width (hd (layers (exampleResize ''se''))) / height (hd (layers (exampleResize ''se''))) = 2"
  using corner_resize_keeps_ratio [of "''0-0-a.png''" exampleLoaded "hd (layers exampleLoaded)"
          "[(480, 310, None), (150, 460, None)]" "''se''"
          "hd (layers (exampleResize ''se''))" 500 300]
  by (simp add: find_exampleLoaded flags_exampleLoaded exampleResize_values
        exampleResize_def [symmetric])

lemma layers_exampleAdded:
  "layers exampleAdded =
     [\<lparr>id_l = ''0-0-a.png'', src = ''blob:a'', x_l = 100, y_l = 100, width = 300, height = 200,
       aspectRatio = 1, visible = True, refs = None\<rparr>]"
  by (simp add: exampleAdded_def exampleFile_def addImages_def initialState_def
        ACCEPTED_TYPES_def pushHistory_eq Let_def)

lemma flags_exampleAdded: "draggingGuide exampleAdded = None"
  by (simp add: exampleAdded_def exampleFile_def addImages_def initialState_def
        ACCEPTED_TYPES_def pushHistory_eq Let_def)

lemma layers_press_release:
  "layers (perform (ResizeGesture cx cy layerId h []) s) = layers s"
  by (simp add: perform_def mouseMoves_def handleResizeMouseDown_def Let_def
        split: option.splits)

text \<open>
  C6 as stated fails on a gesture without a pointer move: the mouse-down and the
  mouse-up on the \<open>se\<close> handle of a layer whose image has not loaded leave it 300 by
  200, with the aspect ratio 1.
\<close>

theorem corner_resize_keeps_ratio_counterexample:
  "find (\<lambda>l. id_l l = ''0-0-a.png'') (layers exampleAdded) = Some (hd (layers exampleAdded)) \<and>
   draggingGuide exampleAdded = None \<and>
   hd (layers (perform (ResizeGesture 400 300 ''0-0-a.png'' ''se'' []) exampleAdded))
     \<in> set (layers (perform (ResizeGesture 400 300 ''0-0-a.png'' ''se'' []) exampleAdded)) \<and>
   id_l (hd (layers (perform (ResizeGesture 400 300 ''0-0-a.png'' ''se'' []) exampleAdded))) =
     ''0-0-a.png'' \<and>
   aspectRatio (hd (layers (perform (ResizeGesture 400 300 ''0-0-a.png'' ''se'' []) exampleAdded))) = 1 \<and>
   width (hd (layers (perform (ResizeGesture 400 300 ''0-0-a.png'' ''se'' []) exampleAdded))) /
   height (hd (layers (perform (ResizeGesture 400 300 ''0-0-a.png'' ''se'' []) exampleAdded))) = 3 / 2"
  by (simp add: layers_press_release layers_exampleAdded flags_exampleAdded)

text \<open>
  C2, as the code has it. After a resize gesture with at least one pointer move, the
  dimension that the handle drags is at least 50: the width on \<open>e\<close>, \<open>w\<close> and the four
  corners, the height on \<open>n\<close> and \<open>s\<close>. The other dimension is not clamped: on an edge
  handle it keeps its value from the start of the gesture, and on a corner handle the
  height is the width divided by the aspect ratio.
\<close>

theorem resize_min_size:
  assumes "find (\<lambda>l. id_l l = layerId) (layers s) = Some layer0"
    and "draggingGuide s = None" and "layerId \<noteq> []" and "moves \<noteq> []"
    and "l' \<in> set (layers (perform (ResizeGesture cx cy layerId h moves) s))"
    and "id_l l' = layerId"
  shows "(h \<in> {''e'', ''w''} \<longrightarrow> width l' \<ge> 50 \<and> height l' = height layer0) \<and>
         (h \<in> {''n'', ''s''} \<longrightarrow> height l' \<ge> 50 \<and> width l' = width layer0) \<and>
         (h \<in> {''nw'', ''ne'', ''sw'', ''se''} \<longrightarrow>
            width l' \<ge> 50 \<and> height l' = width l' / aspectRatio l')"
proof (cases "h = []")
  case True
  then show ?thesis by simp
next
  case False
  from resized_layer [OF assms(1-3) False assms(4-6)]
  obtain l dx dy where l': "l' = resizeLayer h (startOf cx cy layer0) dx dy l" by (elim exE)
  have ew: "h \<in> {''e'', ''w''} \<longrightarrow> width l' \<ge> 50 \<and> height l' = height layer0"
    using resizeLayer_ew [of h "startOf cx cy layer0" dx dy l]
    unfolding l' by (simp add: startOf_def)
  have ns: "h \<in> {''n'', ''s''} \<longrightarrow> height l' \<ge> 50 \<and> width l' = width layer0"
    using resizeLayer_ns [of h "startOf cx cy layer0" dx dy l]
    unfolding l' by (simp add: startOf_def)
  have co: "h \<in> {''nw'', ''ne'', ''sw'', ''se''} \<longrightarrow>
            width l' \<ge> 50 \<and> height l' = width l' / aspectRatio l'"
    using resizeLayer_corner [of h "startOf cx cy layer0" dx dy l]
    unfolding l' by (simp only: resizeLayer_keeps) blast
  from ew ns co show ?thesis by blast
qed

theorem resize_min_size_witness:
  "find (\<lambda>l. id_l l = ''0-0-a.png'') (layers exampleLoaded) = Some (hd (layers exampleLoaded)) \<and>
   draggingGuide exampleLoaded = None \<and>
   width (hd (layers (exampleResize ''e''))) \<ge> 50 \<and>
   height (hd (layers (exampleResize ''e''))) = height (hd (layers exampleLoaded)) \<and>
   height (hd (layers (exampleResize ''n''))) \<ge> 50 \<and>
   width (hd (layers (exampleResize ''n''))) = width (hd (layers exampleLoaded)) \<and>
   width (hd (layers (exampleResize ''se''))) \<ge> 50 \<and>
   height (hd (layers (exampleResize ''se''))) =
     width (hd (layers (exampleResize ''se''))) / aspectRatio (hd (layers (exampleResize ''se'')))"
  using resize_min_size [of "''0-0-a.png''" exampleLoaded "hd (layers exampleLoaded)"
          "[(480, 310, None), (150, 460, None)]" "hd (layers (exampleResize ''e''))" 500 300 "''e''"]
    resize_min_size [of "''0-0-a.png''" exampleLoaded "hd (layers exampleLoaded)"
          "[(480, 310, None), (150, 460, None)]" "hd (layers (exampleResize ''n''))" 500 300 "''n''"]
    resize_min_size [of "''0-0-a.png''" exampleLoaded "hd (layers exampleLoaded)"
          "[(480, 310, None), (150, 460, None)]" "hd (layers (exampleResize ''se''))" 500 300 "''se''"]
  by (simp add: find_exampleLoaded flags_exampleLoaded exampleResize_values
        exampleResize_def [symmetric] layers_exampleLoaded)

text \<open>
  C2 as stated fails on a corner handle: the 400 by 200 layer of aspect ratio 2, dragged
  by its \<open>se\<close> handle 350 to the left and 160 down, ends 50 wide and 25 high.
\<close>

theorem resize_min_size_counterexample:
  "\<not> (width (hd (layers (exampleResize ''se''))) \<ge> 50 \<and>
       height (hd (layers (exampleResize ''se''))) \<ge> 50)"
  by (simp add: exampleResize_values)

section \<open>Reference-point wizard\<close>

lemma map_at_distinct_key:
  assumes "distinct (map f xs)" and "i < length xs"
  shows "map (\<lambda>l. if f l \<noteq> f (xs ! i) then l else g l) xs = xs[i := g (xs ! i)]"
proof (rule nth_equalityI)
  show "length (map (\<lambda>l. if f l \<noteq> f (xs ! i) then l else g l) xs) = length (xs[i := g (xs ! i)])"
    by simp
next
  fix j
  assume "j < length (map (\<lambda>l. if f l \<noteq> f (xs ! i) then l else g l) xs)"
  then have j: "j < length xs" by simp
  have "f (xs ! j) = f (xs ! i) \<longleftrightarrow> j = i"
    using assms j nth_eq_iff_index_eq [of "map f xs" j i] by simp
  then show "map (\<lambda>l. if f l \<noteq> f (xs ! i) then l else g l) xs ! j = xs[i := g (xs ! i)] ! j"
    using j assms(2) by (auto simp add: nth_list_update)
qed

lemma layers_handleAlignModalCanvasClick:
  "layers (handleAlignModalCanvasClick cx cy rect s) =
     (if \<not> alignModalOpen s \<or> \<not> alignModalLayerIndex s < length (layers s) then layers s
      else map (\<lambda>l. if id_l l \<noteq> id_l (layers s ! alignModalLayerIndex s) then l
                     else l\<lparr>refs := Some (writeRefs
                            (if alignModalStep s < length stepKeys
                             then Some (stepKeys ! alignModalStep s) else None)
                            (max 0 (min 1 ((cx - rect_left rect) / rect_width rect)))
                            (max 0 (min 1 ((cy - rect_top rect) / rect_height rect)))
                            (refsOrDefault l))\<rparr>) (layers s))"
  by (simp add: handleAlignModalCanvasClick_def Let_def)

lemma writeRefs_step:
  assumes "step \<le> 4"
  shows "writeRefs (if step < length stepKeys then Some (stepKeys ! step) else None) X Y r =
     (if step = 0 then r\<lparr>bodyTopY := Y\<rparr>
      else if step = 1 then r\<lparr>faceBottomY := Y\<rparr>
      else if step = 2 then r\<lparr>bodyBottomY := Y\<rparr>
      else if step = 3 then r\<lparr>eyeLeftX := X, eyeLeftY := Y\<rparr>
      else r\<lparr>eyeRightX := X, eyeRightY := Y\<rparr>)"
proof -
  from assms consider "step = 0" | "step = 1" | "step = 2" | "step = 3" | "step = 4"
    by linarith
  then show ?thesis
    by cases (simp_all add: writeRefs_def stepKeys_def)
qed

text \<open>
  C9. A click in the wizard leaves the id, the source, the geometry (x, y, width,
  height, aspect ratio) and the visibility of every layer, and the order of the layers,
  as they were. When the wizard is open on a layer of the list, the ids are distinct
  and the step is one of the five, the click replaces exactly the refs of the layer at
  the wizard's index: the layer's refs (the defaults when it had none) with the click
  position, clamped to [0, 1], written into the field or fields of the current step.
\<close>

theorem wizard_click_writes_refs_only:
  "map (\<lambda>l. (id_l l, src l, x_l l, y_l l, width l, height l, aspectRatio l, visible l))
       (layers (handleAlignModalCanvasClick cx cy rect s)) =
   map (\<lambda>l. (id_l l, src l, x_l l, y_l l, width l, height l, aspectRatio l, visible l))
       (layers s) \<and>
   (alignModalOpen s \<and> alignModalLayerIndex s < length (layers s) \<and>
    distinct (map id_l (layers s)) \<and> alignModalStep s \<le> 4 \<longrightarrow>
    (let X = max 0 (min 1 ((cx - rect_left rect) / rect_width rect));
         Y = max 0 (min 1 ((cy - rect_top rect) / rect_height rect));
         layer = layers s ! alignModalLayerIndex s;
         r = refsOrDefault layer;
         step = alignModalStep s;
         r' = (if step = 0 then r\<lparr>bodyTopY := Y\<rparr>
               else if step = 1 then r\<lparr>faceBottomY := Y\<rparr>
               else if step = 2 then r\<lparr>bodyBottomY := Y\<rparr>
               else if step = 3 then r\<lparr>eyeLeftX := X, eyeLeftY := Y\<rparr>
               else r\<lparr>eyeRightX := X, eyeRightY := Y\<rparr>)
     in layers (handleAlignModalCanvasClick cx cy rect s) =
          (layers s)[alignModalLayerIndex s := layer\<lparr>refs := Some r'\<rparr>] \<and>
        0 \<le> X \<and> X \<le> 1 \<and> 0 \<le> Y \<and> Y \<le> 1))"
proof (intro conjI impI)
  show "map (\<lambda>l. (id_l l, src l, x_l l, y_l l, width l, height l, aspectRatio l, visible l))
       (layers (handleAlignModalCanvasClick cx cy rect s)) =
   map (\<lambda>l. (id_l l, src l, x_l l, y_l l, width l, height l, aspectRatio l, visible l))
       (layers s)"
    by (simp add: layers_handleAlignModalCanvasClick comp_def cong: if_cong)
next
  assume a: "alignModalOpen s \<and> alignModalLayerIndex s < length (layers s) \<and>
    distinct (map id_l (layers s)) \<and> alignModalStep s \<le> 4"
  then show "let X = max 0 (min 1 ((cx - rect_left rect) / rect_width rect));
         Y = max 0 (min 1 ((cy - rect_top rect) / rect_height rect));
         layer = layers s ! alignModalLayerIndex s;
         r = refsOrDefault layer;
         step = alignModalStep s;
         r' = (if step = 0 then r\<lparr>bodyTopY := Y\<rparr>
               else if step = 1 then r\<lparr>faceBottomY := Y\<rparr>
               else if step = 2 then r\<lparr>bodyBottomY := Y\<rparr>
               else if step = 3 then r\<lparr>eyeLeftX := X, eyeLeftY := Y\<rparr>
               else r\<lparr>eyeRightX := X, eyeRightY := Y\<rparr>)
     in layers (handleAlignModalCanvasClick cx cy rect s) =
          (layers s)[alignModalLayerIndex s := layer\<lparr>refs := Some r'\<rparr>] \<and>
        0 \<le> X \<and> X \<le> 1 \<and> 0 \<le> Y \<and> Y \<le> 1"
    unfolding Let_def
    using map_at_distinct_key [of id_l "layers s" "alignModalLayerIndex s"]
    by (simp add: layers_handleAlignModalCanvasClick writeRefs_step [symmetric])
qed

theorem wizard_click_writes_refs_only_witness:
  "alignModalOpen exampleWizard \<and>
   alignModalLayerIndex exampleWizard < length (layers exampleWizard) \<and>
   distinct (map id_l (layers exampleWizard)) \<and> alignModalStep exampleWizard \<le> 4 \<and>
   layers (handleAlignModalCanvasClick 50 30 exampleRect exampleWizard) =
     [\<lparr>id_l = ''0-0-a.png'', src = ''blob:a'', x_l = 100, y_l = 100, width = 400, height = 200,
       aspectRatio = 2, visible = True, refs = Some (defaultRefs\<lparr>bodyTopY := 0.3\<rparr>)\<rparr>]"
  using wizard_click_writes_refs_only [of 50 30 exampleRect exampleWizard]
  by (simp add: exampleWizard_eq layers_exampleLoaded exampleRect_def refsOrDefault_def Let_def)

end
